theory Spec2Isabelle
  imports Complex_Main
begin

section \<open>Strings of the host language\<close>

text \<open>
  A JavaScript string is modelled as a \<^typ>\<open>string\<close>; each \<^typ>\<open>char\<close> stands for one
  code unit below 256 (the Latin-1 block). Its capital letters are \<open>A-Z\<close> and
  \<open>0xC0-0xDE\<close> without the multiplication sign \<open>0xD7\<close>; the small letter of each stands
  thirty-two places further up. \<open>toLowerCase\<close> replaces every capital by its small letter
  and leaves every other code unit alone.
\<close>

definition capitals :: string where
  "capitals = ''ABCDEFGHIJKLMNOPQRSTUVWXYZ'' @
     [
      CHR 0xC0, CHR 0xC1, CHR 0xC2, CHR 0xC3, CHR 0xC4, CHR 0xC5, CHR 0xC6, CHR 0xC7,
      CHR 0xC8, CHR 0xC9, CHR 0xCA, CHR 0xCB, CHR 0xCC, CHR 0xCD, CHR 0xCE, CHR 0xCF,
      CHR 0xD0, CHR 0xD1, CHR 0xD2, CHR 0xD3, CHR 0xD4, CHR 0xD5, CHR 0xD6, CHR 0xD8,
      CHR 0xD9, CHR 0xDA, CHR 0xDB, CHR 0xDC, CHR 0xDD, CHR 0xDE]"

definition smalls :: string where
  "smalls = ''abcdefghijklmnopqrstuvwxyz'' @
     [
      CHR 0xE0, CHR 0xE1, CHR 0xE2, CHR 0xE3, CHR 0xE4, CHR 0xE5, CHR 0xE6, CHR 0xE7,
      CHR 0xE8, CHR 0xE9, CHR 0xEA, CHR 0xEB, CHR 0xEC, CHR 0xED, CHR 0xEE, CHR 0xEF,
      CHR 0xF0, CHR 0xF1, CHR 0xF2, CHR 0xF3, CHR 0xF4, CHR 0xF5, CHR 0xF6, CHR 0xF8,
      CHR 0xF9, CHR 0xFA, CHR 0xFB, CHR 0xFC, CHR 0xFD, CHR 0xFE]"

fun replaceChar :: "string \<Rightarrow> string \<Rightarrow> char \<Rightarrow> char" where
  "replaceChar (k # ks) (v # vs) c = (if c = k then v else replaceChar ks vs c)"
| "replaceChar ks vs c = c"

definition toLowerChar :: "char \<Rightarrow> char" where
  "toLowerChar c = replaceChar capitals smalls c"

definition toLowerCase :: "string \<Rightarrow> string" where
  "toLowerCase s = map toLowerChar s"

text \<open>
  \<open>Canonicalize\<close> of a regular expression with the \<open>i\<close> flag (no \<open>u\<close> flag): the
  upper-case form of the code unit, kept only when it is again a single code unit.
  Within the block that is the capital of a small letter; the sharp s (\<open>0xDF\<close>), the
  micro sign and \<open>0xFF\<close> have no capital in the block and stay as they are.
\<close>

definition canonicalize :: "char \<Rightarrow> char" where
  "canonicalize c = replaceChar smalls capitals c"

text \<open>\<open>s.startsWith(p)\<close> and \<open>s.includes(p)\<close> (here \<open>includesJS\<close>): both compare code units exactly.\<close>

fun startsWith :: "string \<Rightarrow> string \<Rightarrow> bool" where
  "startsWith s [] = True"
| "startsWith [] (p # ps) = False"
| "startsWith (c # cs) (p # ps) = (c = p \<and> startsWith cs ps)"

fun includesJS :: "string \<Rightarrow> string \<Rightarrow> bool" where
  "includesJS [] p = (p = [])"
| "includesJS (c # cs) p = (startsWith (c # cs) p \<or> includesJS cs p)"

text \<open>
  The number of positions of \<open>s\<close> at which \<open>p\<close> starts: the occurrences of \<open>p\<close> in \<open>s\<close>.
\<close>

fun occurrences :: "string \<Rightarrow> string \<Rightarrow> nat" where
  "occurrences p [] = (if p = [] then 1 else 0)"
| "occurrences p (c # cs) = (if startsWith (c # cs) p then 1 else 0) + occurrences p cs"

section \<open>Regular expressions\<close>

text \<open>
  The patterns of the extension are built from literals, \<open>.*\<close>, sequence and alternation.
  \<open>matchLengths\<close> lists the lengths of the matches of a pattern at the start of a string
  in the order in which a backtracking matcher tries them: the left alternative first,
  the longest run of \<open>.*\<close> first. The dot matches every code unit except the line
  terminators \<open>LF\<close> and \<open>CR\<close>.
\<close>

datatype regex =
    Lit string
  | DotStar
  | Seq regex regex
  | Alt regex regex

fun litMatch :: "bool \<Rightarrow> string \<Rightarrow> string \<Rightarrow> bool" where
  "litMatch ci [] s = True"
| "litMatch ci (p # ps) [] = False"
| "litMatch ci (p # ps) (c # cs) =
     ((if ci then canonicalize c = canonicalize p else c = p) \<and> litMatch ci ps cs)"

definition lineTerminator :: "char \<Rightarrow> bool" where
  "lineTerminator c = (c = CHR 0x0A \<or> c = CHR 0x0D)"

fun matchLengths :: "bool \<Rightarrow> regex \<Rightarrow> string \<Rightarrow> nat list" where
  "matchLengths ci (Lit p) s = (if litMatch ci p s then [length p] else [])"
| "matchLengths ci DotStar s =
     rev [0 ..< Suc (length (takeWhile (\<lambda>c. \<not> lineTerminator c) s))]"
| "matchLengths ci (Seq r1 r2) s =
     concat (map (\<lambda>n. map (\<lambda>m. n + m) (matchLengths ci r2 (drop n s))) (matchLengths ci r1 s))"
| "matchLengths ci (Alt r1 r2) s = matchLengths ci r1 s @ matchLengths ci r2 s"

text \<open>\<open>pattern.test(s)\<close> for a pattern without the \<open>g\<close> flag: a match at some position.\<close>

fun regexTest :: "bool \<Rightarrow> regex \<Rightarrow> string \<Rightarrow> bool" where
  "regexTest ci r [] = (matchLengths ci r [] \<noteq> [])"
| "regexTest ci r (c # cs) = (matchLengths ci r (c # cs) \<noteq> [] \<or> regexTest ci r cs)"

text \<open>
  \<open>s.match(pattern)\<close> for a pattern with the \<open>g\<close> flag: the matched substrings from left
  to right, each search starting where the last match ended (one place further after an
  empty match), and \<open>null\<close> when there is none.
\<close>

fun matchAll :: "bool \<Rightarrow> regex \<Rightarrow> string \<Rightarrow> string list" where
  "matchAll ci r [] = (case matchLengths ci r [] of [] \<Rightarrow> [] | n # _ \<Rightarrow> [[]])"
| "matchAll ci r (c # cs) =
     (case matchLengths ci r (c # cs) of
        [] \<Rightarrow> matchAll ci r cs
      | n # _ \<Rightarrow> take n (c # cs) # matchAll ci r (drop (n - 1) cs))"

definition matchGlobal :: "bool \<Rightarrow> regex \<Rightarrow> string \<Rightarrow> string list option" where
  "matchGlobal ci r s = (case matchAll ci r s of [] \<Rightarrow> None | ms \<Rightarrow> Some ms)"

fun alternatives :: "string list \<Rightarrow> regex" where
  "alternatives [] = Lit []"
| "alternatives [p] = Lit p"
| "alternatives (p # ps) = Alt (Lit p) (alternatives ps)"

section \<open>Page Observer: text heuristics (content.js)\<close>

record threat =
  type :: string
  severity :: string
  description :: string
  location :: string

definition suspiciousKeywords :: "string list" where
  "suspiciousKeywords =
     [''urgent'', ''immediate action'', ''account suspended'', ''verify now'',
      ''click here'', ''limited time'', ''free money'', ''lottery winner'',
      ''bank account'', ''credit card'', ''social security'', ''password'',
      ''login'', ''sign in'', ''update now'', ''security alert'']"

definition urgencyPatterns :: "regex list" where
  "urgencyPatterns =
     [alternatives [''immediate'', ''urgent'', ''asap'', ''right now'', ''quickly''],
      alternatives [''limited time'', ''expires'', ''deadline''],
      alternatives [''act now'', ''don'' @ [CHR 0x27] @ ''t wait'', ''hurry'']]"

definition keywordThreat :: "string \<Rightarrow> threat" where
  "keywordThreat keyword =
     \<lparr>type = ''suspicious_keyword'', severity = ''medium'',
      description = ''Suspicious keyword detected: '' @ [CHR 0x22] @ keyword @ [CHR 0x22],
      location = ''text_content''\<rparr>"

definition urgencyThreat :: threat where
  "urgencyThreat =
     \<lparr>type = ''excessive_urgency'', severity = ''high'',
      description = ''Excessive urgency detected in text'',
      location = ''text_content''\<rparr>"

text \<open>
  \<open>analyzeTextThreats\<close>: two \<open>forEach\<close> loops that push onto the same array, the first
  over the vocabulary, the second over the three urgency families.
\<close>

definition keywordStep :: "string \<Rightarrow> threat list \<Rightarrow> string \<Rightarrow> threat list" where
  "keywordStep text threats keyword =
     (if includesJS (toLowerCase text) (toLowerCase keyword)
      then threats @ [keywordThreat keyword] else threats)"

definition urgencyStep :: "string \<Rightarrow> threat list \<Rightarrow> regex \<Rightarrow> threat list" where
  "urgencyStep text threats pattern =
     (case matchGlobal True pattern text of
        None \<Rightarrow> threats
      | Some matches \<Rightarrow> if 2 < length matches then threats @ [urgencyThreat] else threats)"

definition analyzeTextThreats :: "string \<Rightarrow> threat list" where
  "analyzeTextThreats text =
     foldl (urgencyStep text) (foldl (keywordStep text) [] suspiciousKeywords) urgencyPatterns"

section \<open>Coordination Agent: quick keyword scan (background.js)\<close>

definition quickKeywords :: "string list" where
  "quickKeywords =
     [''urgent'', ''immediate action'', ''account suspended'', ''verify now'',
      ''click here'', ''limited time'', ''free money'', ''lottery winner'',
      ''bank account'', ''credit card'', ''social security'', ''password'',
      ''login'', ''sign in'', ''update now'', ''security alert'',
      ''bitcoin'', ''crypto'', ''investment opportunity'', ''act now'',
      ''don'' @ [CHR 0x27] @ ''t wait'', ''hurry'', ''expires'', ''deadline'']"

definition quickKeywordScan :: "string \<Rightarrow> string list" where
  "quickKeywordScan text =
     (let lowerText = toLowerCase text
      in foldl (\<lambda>foundThreats keyword.
                  if includesJS lowerText (toLowerCase keyword)
                  then foundThreats @ [keyword] else foundThreats)
           [] quickKeywords)"

section \<open>Values and errors of the host language\<close>

text \<open>
  A thrown value is an \<open>Error\<close> or a \<open>TypeError\<close> with its message. A parsed JSON
  document is a \<open>json\<close>; a JavaScript value that may be \<open>undefined\<close> is a
  \<open>json option\<close>. Numbers are modelled as reals: the code compares and copies them
  and computes with none of those it returns.
\<close>

datatype js_error = Error string | TypeError string

fun message :: "js_error \<Rightarrow> string" where
  "message (Error m) = m"
| "message (TypeError m) = m"

datatype json =
    JNull
  | JBool bool
  | JNum real
  | JStr string
  | JArr "json list"
  | JObj "(string \<times> json) list"

text \<open>
  \<open>value.key\<close> for a key that no built-in prototype defines: reading from \<open>null\<close> throws,
  an object yields its member (the last one of a repeated key, as \<open>JSON.parse\<close> keeps
  it), everything else yields \<open>undefined\<close>.
\<close>

fun getProp :: "json \<Rightarrow> string \<Rightarrow> js_error + json option" where
  "getProp JNull k =
     Inl (TypeError (''Cannot read properties of null (reading '' @ [CHR 0x27] @ k @ [CHR 0x27] @ '')''))"
| "getProp (JObj kvs) k = Inr (map_of (rev kvs) k)"
| "getProp (JBool b) k = Inr None"
| "getProp (JNum x) k = Inr None"
| "getProp (JStr s) k = Inr None"
| "getProp (JArr xs) k = Inr None"

definition digitChar :: "nat \<Rightarrow> char" where
  "digitChar d = char_of (48 + d)"

fun showNat :: "nat \<Rightarrow> string" where
  "showNat n = (if n < 10 then [digitChar n] else showNat (n div 10) @ [digitChar (n mod 10)])"

section \<open>The remote service as the extension sees it\<close>

record upload =
  fileName :: string
  fileType :: string

datatype payload =
    JsonBody json
  | FormData "(string \<times> upload) list"

record request =
  requestUrl :: string
  requestBody :: payload

record response =
  status :: nat
  statusText :: string
  jsonBody :: "js_error + json"

text \<open>\<open>response.ok\<close>: the status is in the range 200-299.\<close>

definition ok :: "response \<Rightarrow> bool" where
  "ok r = (200 \<le> status r \<and> status r \<le> 299)"

record settings =
  apiEndpoint :: string
  notifications :: bool

section \<open>Coordination Agent: direct content scan (background.js)\<close>

text \<open>
  \<open>scanContent(content, type)\<close>. The \<open>fetch\<close> of the host is a parameter: it answers a
  request with a response or rejects. The \<open>catch\<close> of the source logs and rethrows, so
  every error passes through unchanged.
\<close>

definition scanContent ::
  "(request \<Rightarrow> js_error + response) \<Rightarrow> settings \<Rightarrow> string \<Rightarrow> string \<Rightarrow> js_error + json" where
  "scanContent fetch s content contentType =
     (if contentType = ''text''
      then (case fetch \<lparr>requestUrl = apiEndpoint s @ ''/predict-text'',
                         requestBody = JsonBody (JObj [(''text'', JStr content)])\<rparr> of
              Inl err \<Rightarrow> Inl err
            | Inr resp \<Rightarrow>
                if \<not> ok resp then Inl (Error (''API Error: '' @ showNat (status resp)))
                else jsonBody resp)
      else Inl (Error (''Unsupported content type: '' @ contentType)))"

section \<open>Interaction Panel: file scans (popup.js)\<close>

definition callAPI ::
  "(request \<Rightarrow> js_error + response) \<Rightarrow> settings \<Rightarrow> string \<Rightarrow> payload \<Rightarrow> js_error + json" where
  "callAPI fetch s endpoint body =
     (case fetch \<lparr>requestUrl = apiEndpoint s @ endpoint, requestBody = body\<rparr> of
        Inl err \<Rightarrow> Inl err
      | Inr resp \<Rightarrow>
          if \<not> ok resp
          then Inl (Error (''API Error: '' @ showNat (status resp) @ '' '' @ statusText resp))
          else jsonBody resp)"

definition scanFile ::
  "(request \<Rightarrow> js_error + response) \<Rightarrow> settings \<Rightarrow> upload \<Rightarrow> js_error + json" where
  "scanFile fetch s file =
     (if startsWith (fileType file) ''image/''
      then callAPI fetch s ''/predict-image'' (FormData [(''file'', file), (''image'', file)])
      else if startsWith (fileType file) ''audio/''
      then callAPI fetch s ''/predict-audio'' (FormData [(''file'', file), (''audio'', file)])
      else if startsWith (fileType file) ''video/''
      then callAPI fetch s ''/predict-video'' (FormData [(''file'', file), (''video'', file)])
      else Inl (Error ''Unsupported file type''))"

text \<open>
  \<open>processFiles(files)\<close>: one entry is pushed for every file, with the result or with
  the message of the error that the scan threw. The \<open>i\<close>-th scan of the batch talks to
  \<open>fetchAt i\<close>.
\<close>

record fileEntry =
  entryFile :: string
  entryResult :: "json option"
  entryError :: "string option"

fun processLoop ::
  "(nat \<Rightarrow> request \<Rightarrow> js_error + response) \<Rightarrow> settings \<Rightarrow> nat \<Rightarrow> fileEntry list \<Rightarrow>
   upload list \<Rightarrow> fileEntry list" where
  "processLoop fetchAt s i results [] = results"
| "processLoop fetchAt s i results (file # files) =
     processLoop fetchAt s (Suc i)
       (case scanFile (fetchAt i) s file of
          Inr result \<Rightarrow>
            results @ [\<lparr>entryFile = fileName file, entryResult = Some result, entryError = None\<rparr>]
        | Inl err \<Rightarrow>
            results @ [\<lparr>entryFile = fileName file, entryResult = None,
                        entryError = Some (message err)\<rparr>])
       files"

definition processFiles ::
  "(nat \<Rightarrow> request \<Rightarrow> js_error + response) \<Rightarrow> settings \<Rightarrow> upload list \<Rightarrow> fileEntry list" where
  "processFiles fetchAt s files = processLoop fetchAt s 0 [] files"

section \<open>Coordination Agent: screenshot pipeline (background.js)\<close>

text \<open>
  The host's services are the fields of an environment: each gives the outcome of the
  one call that the pipeline makes to it (the store is asked once per entry written).
  What the pipeline does to the outside is recorded as a list of effects in the order of
  the calls. A notification is recorded by its title (without the leading pictograph);
  file names and time stamps are left out.
\<close>

record tab =
  tabId :: nat
  windowId :: nat
  tabUrl :: string

record document =
  innerText :: string
  title :: string
  href :: string

record basicAnalysis =
  basicThreats :: "string list"
  basicText :: string
  basicTitle :: string
  basicUrl :: string

datatype cacheEntry =
    ApiResultEntry string json string
  | BasicAnalysisEntry string basicAnalysis string

datatype effect =
    Notification string
  | Download string
  | FetchData string
  | Fetch request
  | StorageSet cacheEntry
  | ExecuteScript nat

record env =
  currentSettings :: settings
  captureVisibleTab :: "js_error + string"
  download :: "js_error + nat"
  fetchData :: "js_error option"
  fetchApi :: "request \<Rightarrow> js_error + response"
  storageSet :: "cacheEntry \<Rightarrow> js_error option"
  executeScript :: "js_error + document option"

text \<open>The object that the pipeline returns to the Panel.\<close>

record scanResult =
  threats :: "string list"
  confidence :: "json option"
  apiResult :: "json option"
  basic :: "basicAnalysis option"
  error :: "string option"
  screenshotSaved :: bool

definition showThreatNotification :: "env \<Rightarrow> string \<Rightarrow> effect list" where
  "showThreatNotification e t = (if notifications (currentSettings e) then [Notification t] else [])"

text \<open>
  \<open>performBasicScreenshotAnalysis\<close>: the body of the \<open>try\<close> is \<open>basicTry\<close>, which
  returns or throws; the \<open>catch\<close> turns what it throws into the error result.
\<close>

definition extractedText :: "document \<Rightarrow> string" where
  "extractedText doc = take 2000 (innerText doc)"

definition analysisOf :: "document \<Rightarrow> basicAnalysis" where
  "analysisOf doc =
     \<lparr>basicThreats = quickKeywordScan (extractedText doc @ '' '' @ title doc),
      basicText = take 500 (extractedText doc),
      basicTitle = title doc, basicUrl = href doc\<rparr>"

definition basicTry :: "env \<Rightarrow> string \<Rightarrow> tab \<Rightarrow> (js_error + scanResult) \<times> effect list" where
  "basicTry e screenshot t =
     (case executeScript e of
        Inl err \<Rightarrow> (Inl err, [ExecuteScript (tabId t)])
      | Inr None \<Rightarrow>
          (Inr \<lparr>threats = [], confidence = Some (JNum 0.1), apiResult = None,
                basic = Some \<lparr>basicThreats = [], basicText = [], basicTitle = [], basicUrl = []\<rparr>,
                error = None, screenshotSaved = True\<rparr>,
           [ExecuteScript (tabId t)])
      | Inr (Some doc) \<Rightarrow>
          (let found = quickKeywordScan (extractedText doc @ '' '' @ title doc);
               note = showThreatNotification e
                        (if 0 < length found then ''Suspicious Content Detected''
                         else ''Screenshot Saved & Basic Analysis Complete'');
               entry = BasicAnalysisEntry screenshot (analysisOf doc) (tabUrl t);
               effects = [ExecuteScript (tabId t)] @ note @ [StorageSet entry]
           in case storageSet e entry of
                Some err \<Rightarrow> (Inl err, effects)
              | None \<Rightarrow>
                  (Inr \<lparr>threats = found,
                        confidence = Some (JNum (if 0 < length found then 0.8 else 0.2)),
                        apiResult = None, basic = Some (analysisOf doc), error = None,
                        screenshotSaved = True\<rparr>,
                   effects)))"

definition performBasicScreenshotAnalysis ::
  "env \<Rightarrow> string \<Rightarrow> tab \<Rightarrow> (js_error + scanResult) \<times> effect list" where
  "performBasicScreenshotAnalysis e screenshot t =
     (case basicTry e screenshot t of
        (Inr r, effects) \<Rightarrow> (Inr r, effects)
      | (Inl err, effects) \<Rightarrow>
          (Inr \<lparr>threats = [], confidence = Some (JNum 0.0), apiResult = None, basic = None,
                error = Some (message err), screenshotSaved = True\<rparr>,
           effects @ showThreatNotification e ''Screenshot Saved''))"

definition imageRequest :: "env \<Rightarrow> request" where
  "imageRequest e =
     \<lparr>requestUrl = apiEndpoint (currentSettings e) @ ''/predict-image'',
      requestBody = FormData [(''image'', \<lparr>fileName = ''screenshot.png'', fileType = ''image/png''\<rparr>)]\<rparr>"

text \<open>
  The inner \<open>try\<close> up to the point where the source either returns the remote result or
  decides for the basic analysis: \<open>Inr (Some r)\<close> is the \<open>return\<close> of the remote result,
  \<open>Inr None\<close> the \<open>else\<close> branch of \<open>apiResponse.ok\<close>, \<open>Inl err\<close> what the inner
  \<open>catch\<close> receives.
\<close>

definition remoteAnalysis ::
  "env \<Rightarrow> string \<Rightarrow> tab \<Rightarrow> (js_error + scanResult option) \<times> effect list" where
  "remoteAnalysis e screenshot t =
     (case fetchData e of
        Some err \<Rightarrow> (Inl err, [FetchData screenshot])
      | None \<Rightarrow>
          (case fetchApi e (imageRequest e) of
             Inl err \<Rightarrow> (Inl err, [FetchData screenshot, Fetch (imageRequest e)])
           | Inr apiResponse \<Rightarrow>
               if ok apiResponse
               then (case jsonBody apiResponse of
                       Inl err \<Rightarrow> (Inl err, [FetchData screenshot, Fetch (imageRequest e)])
                     | Inr result \<Rightarrow>
                         (case getProp result ''prediction'' of
                            Inl err \<Rightarrow> (Inl err, [FetchData screenshot, Fetch (imageRequest e)])
                          | Inr prediction \<Rightarrow>
                              (let note = showThreatNotification e
                                            (if prediction = Some (JNum 1)
                                             then ''THREAT DETECTED IN SCREENSHOT!''
                                             else ''Screenshot Safe'');
                                   entry = ApiResultEntry screenshot result (tabUrl t);
                                   effects = [FetchData screenshot, Fetch (imageRequest e)]
                                               @ note @ [StorageSet entry]
                               in case storageSet e entry of
                                    Some err \<Rightarrow> (Inl err, effects)
                                  | None \<Rightarrow>
                                      (case getProp result ''probability'' of
                                         Inl err \<Rightarrow> (Inl err, effects)
                                       | Inr probability \<Rightarrow>
                                           (Inr (Some
                                              \<lparr>threats = (if prediction = Some (JNum 1)
                                                           then [''Phishing/Scam content detected'']
                                                           else []),
                                               confidence = probability,
                                               apiResult = Some result, basic = None,
                                               error = None, screenshotSaved = True\<rparr>),
                                            effects)))))
               else (Inr None, [FetchData screenshot, Fetch (imageRequest e)])))"

text \<open>
  The inner \<open>try\<close> and its \<open>catch\<close>: the call of the basic analysis in the \<open>else\<close>
  branch stands inside the \<open>try\<close>, so what it throws reaches the \<open>catch\<close>, which calls
  the basic analysis again; what that call throws leaves the inner statement.
\<close>

definition analyzeCaptured ::
  "env \<Rightarrow> string \<Rightarrow> tab \<Rightarrow> (js_error + scanResult) \<times> effect list" where
  "analyzeCaptured e screenshot t =
     (case remoteAnalysis e screenshot t of
        (Inr (Some r), effects) \<Rightarrow> (Inr r, effects)
      | (Inr None, effects) \<Rightarrow>
          (case performBasicScreenshotAnalysis e screenshot t of
             (Inr r, effects') \<Rightarrow> (Inr r, effects @ effects')
           | (Inl err, effects') \<Rightarrow>
               (case performBasicScreenshotAnalysis e screenshot t of
                  (res, effects'') \<Rightarrow> (res, effects @ effects' @ effects'')))
      | (Inl apiError, effects) \<Rightarrow>
          (case performBasicScreenshotAnalysis e screenshot t of
             (res, effects') \<Rightarrow> (res, effects @ effects')))"

text \<open>
  \<open>takeScreenshotAndAnalyze\<close>: the outer \<open>try\<close> is \<open>screenshotTry\<close>; the outer \<open>catch\<close>
  notifies and rethrows.
\<close>

definition screenshotTry :: "env \<Rightarrow> tab \<Rightarrow> (js_error + scanResult) \<times> effect list" where
  "screenshotTry e t =
     (let start = showThreatNotification e ''Screenshot Analysis''
      in case captureVisibleTab e of
           Inl err \<Rightarrow> (Inl err, start)
         | Inr screenshot \<Rightarrow>
             if screenshot = [] then (Inl (Error ''Failed to capture screenshot''), start)
             else (case download e of
                     Inl err \<Rightarrow> (Inl err, start @ [Download screenshot])
                   | Inr downloadId \<Rightarrow>
                       (case analyzeCaptured e screenshot t of
                          (res, effects) \<Rightarrow> (res, start @ [Download screenshot] @ effects))))"

definition takeScreenshotAndAnalyze ::
  "env \<Rightarrow> tab \<Rightarrow> (js_error + scanResult) \<times> effect list" where
  "takeScreenshotAndAnalyze e t =
     (case screenshotTry e t of
        (Inr r, effects) \<Rightarrow> (Inr r, effects)
      | (Inl err, effects) \<Rightarrow> (Inl err, effects @ showThreatNotification e ''Screenshot Error''))"

section \<open>Page Observer: link heuristics (content.js)\<close>

record link =
  linkHref :: string
  linkText :: string
  linkTitle :: string
  linkTarget :: string

record linkThreat = threat +
  element :: link

definition shortenerPatterns :: "regex list" where
  "shortenerPatterns =
     map Lit [''bit.ly'', ''tinyurl.com'', ''goo.gl'', ''t.co'', ''is.gd'', ''cli.gs'', ''ow.ly'',
              ''su.pr'', ''twurl.nl'', ''snipurl.com'', ''short.to'', ''BudURL.com'', ''ping.fm'',
              ''tr.im'', ''bkite.com'', ''snipr.com'', ''shortie.io'', ''short.io'', ''rb.gy'',
              ''tiny.cc'']"

definition isSuspiciousURL :: "string \<Rightarrow> bool" where
  "isSuspiciousURL url =
     (list_ex (\<lambda>pattern. regexTest True pattern url) shortenerPatterns \<or>
      includesJS url ''suspicious'' \<or> includesJS url ''phishing'' \<or>
      includesJS url ''scam'' \<or> includesJS url ''malware'')"

text \<open>
  \<open>isLinkMismatch\<close>: \<open>new URL(link.href)\<close> is the host's parser, a parameter that gives
  the host name of an address, or nothing where the constructor throws.
\<close>

definition isLinkMismatch :: "(string \<Rightarrow> string option) \<Rightarrow> link \<Rightarrow> js_error + bool" where
  "isLinkMismatch hostname l =
     (case hostname (linkHref l) of
        None \<Rightarrow> Inl (TypeError ''Invalid URL'')
      | Some domain \<Rightarrow>
          (let lower = toLowerCase (linkText l)
           in Inr (if includesJS lower ''google'' \<and> \<not> includesJS domain ''google'' then True
                   else if includesJS lower ''facebook'' \<and> \<not> includesJS domain ''facebook'' then True
                   else if includesJS lower ''amazon'' \<and> \<not> includesJS domain ''amazon'' then True
                   else if includesJS lower ''paypal'' \<and> \<not> includesJS domain ''paypal'' then True
                   else False)))"

definition suspiciousLinkThreat :: "link \<Rightarrow> linkThreat" where
  "suspiciousLinkThreat l =
     \<lparr>type = ''suspicious_link'', severity = ''high'',
      description = ''Suspicious link detected: '' @ linkHref l,
      location = ''link'', element = l\<rparr>"

definition linkMismatchThreat :: "link \<Rightarrow> linkThreat" where
  "linkMismatchThreat l =
     \<lparr>type = ''link_mismatch'', severity = ''medium'',
      description = ''Link text does not match destination URL'',
      location = ''link'', element = l\<rparr>"

fun linkLoop ::
  "(string \<Rightarrow> string option) \<Rightarrow> linkThreat list \<Rightarrow> link list \<Rightarrow> js_error + linkThreat list" where
  "linkLoop hostname found [] = Inr found"
| "linkLoop hostname found (l # ls) =
     (let found1 = (if isSuspiciousURL (linkHref l) then found @ [suspiciousLinkThreat l] else found)
      in case isLinkMismatch hostname l of
           Inl err \<Rightarrow> Inl err
         | Inr mismatch \<Rightarrow>
             linkLoop hostname (if mismatch then found1 @ [linkMismatchThreat l] else found1) ls)"

definition analyzeLinkThreats ::
  "(string \<Rightarrow> string option) \<Rightarrow> link list \<Rightarrow> js_error + linkThreat list" where
  "analyzeLinkThreats hostname links = linkLoop hostname [] links"

section \<open>Page Observer: warnings, live interception and mutation watching (content.js)\<close>

text \<open>
  What the observer leaves on the page is the list of warning banners it has appended.
  An event carries its target and whether \<open>preventDefault\<close> has been called on it; a
  handler returns the observer and the event as it leaves them.
\<close>

record observer =
  warningsEnabled :: bool
  warnings :: "string list"

record 'a event =
  target :: 'a
  defaultPrevented :: bool

definition showWarning :: "observer \<Rightarrow> string \<Rightarrow> observer" where
  "showWarning ob msg =
     (if \<not> warningsEnabled ob then ob else ob\<lparr>warnings := warnings ob @ [msg]\<rparr>)"

datatype formValue = StringValue string | FileValue

fun valueString :: "formValue \<Rightarrow> string" where
  "valueString (StringValue v) = v"
| "valueString FileValue = ''[object File]''"

definition formValuePatterns :: "regex list" where
  "formValuePatterns =
     [Lit ''password'',
      Seq (Lit ''credit'') (Seq DotStar (Lit ''card'')),
      Alt (Lit ''ssn'') (Seq (Lit ''social'') (Seq DotStar (Lit ''security''))),
      Seq (Lit ''bank'') (Seq DotStar (Lit ''account'')),
      Seq (Lit ''routing'') (Seq DotStar (Lit ''number''))]"

definition isSuspiciousFormValue :: "string \<Rightarrow> formValue \<Rightarrow> bool" where
  "isSuspiciousFormValue key v =
     list_ex (\<lambda>pattern. regexTest True pattern key \<or> regexTest True pattern (valueString v))
       formValuePatterns"

text \<open>The \<open>for\<close> loop over the entries of the form, left at the first suspicious one.\<close>

fun entriesLoop :: "bool \<Rightarrow> (string \<times> formValue) list \<Rightarrow> bool" where
  "entriesLoop hasSuspiciousContent [] = hasSuspiciousContent"
| "entriesLoop hasSuspiciousContent ((key, v) # rest) =
     (if isSuspiciousFormValue key v then True else entriesLoop hasSuspiciousContent rest)"

definition analyzeFormSubmission ::
  "observer \<Rightarrow> (string \<times> formValue) list event \<Rightarrow> observer \<times> (string \<times> formValue) list event" where
  "analyzeFormSubmission ob ev =
     (if entriesLoop False (target ev)
      then (showWarning ob ''Suspicious form submission detected'', ev)
      else (ob, ev))"

text \<open>
  A click: the target is given by the address of its closest enclosing anchor, if there
  is one.
\<close>

definition analyzeLinkClick :: "observer \<Rightarrow> string option event \<Rightarrow> observer \<times> string option event" where
  "analyzeLinkClick ob ev =
     (case target ev of
        None \<Rightarrow> (ob, ev)
      | Some url \<Rightarrow>
          if isSuspiciousURL url then (showWarning ob ''Suspicious link detected'', ev)
          else (ob, ev))"

record inputElement =
  inputType :: "string option"
  inputFiles :: "string list"

fun splitOn :: "char \<Rightarrow> string \<Rightarrow> string list" where
  "splitOn d [] = [[]]"
| "splitOn d (c # cs) =
     (if c = d then [] # splitOn d cs
      else (case splitOn d cs of [] \<Rightarrow> [[c]] | x # xs \<Rightarrow> (c # x) # xs))"

definition suspiciousExtensions :: "string list" where
  "suspiciousExtensions = [''.exe'', ''.bat'', ''.cmd'', ''.scr'', ''.pif'']"

definition analyzeFileUpload :: "observer \<Rightarrow> inputElement event \<Rightarrow> observer \<times> inputElement event" where
  "analyzeFileUpload ob ev =
     (if inputType (target ev) = Some ''file'' \<and> 0 < length (inputFiles (target ev))
      then (let name = hd (inputFiles (target ev));
                fileExtension = ''.'' @ toLowerCase (last (splitOn (CHR ''.'') name))
            in if fileExtension \<in> set suspiciousExtensions
               then (showWarning ob ''Suspicious file type detected'', ev)
               else (ob, ev))
      else (ob, ev))"

text \<open>
  Mutation watching. \<open>trim\<close> strips the white space of the block from both ends. The
  value of \<open>analyzeLinkThreats\<close> is computed and not used by \<open>analyzeNewContent\<close>; what
  it throws ends the callback.
\<close>

record node =
  nodeType :: nat
  tagName :: string
  nodeHref :: string
  textContent :: string
  nodeTitle :: string
  nodeTarget :: string

record mutation =
  mutationType :: string
  addedNodes :: "node list"

definition whiteSpace :: "char \<Rightarrow> bool" where
  "whiteSpace c = (c \<in> set [CHR 0x09, CHR 0x0A, CHR 0x0B, CHR 0x0C, CHR 0x0D, CHR 0x20, CHR 0xA0])"

definition trim :: "string \<Rightarrow> string" where
  "trim s = rev (dropWhile whiteSpace (rev (dropWhile whiteSpace s)))"

definition nodeLink :: "node \<Rightarrow> link" where
  "nodeLink n =
     \<lparr>linkHref = nodeHref n, linkText = trim (textContent n), linkTitle = nodeTitle n,
      linkTarget = nodeTarget n\<rparr>"

definition analyzeNewContent ::
  "(string \<Rightarrow> string option) \<Rightarrow> observer \<Rightarrow> node \<Rightarrow> js_error + observer" where
  "analyzeNewContent hostname ob n =
     (if tagName n = ''A''
      then (case analyzeLinkThreats hostname [nodeLink n] of
              Inl err \<Rightarrow> Inl err
            | Inr found \<Rightarrow> Inr ob)
      else Inr ob)"

fun nodesLoop ::
  "(string \<Rightarrow> string option) \<Rightarrow> observer \<Rightarrow> node list \<Rightarrow> js_error + observer" where
  "nodesLoop hostname ob [] = Inr ob"
| "nodesLoop hostname ob (n # ns) =
     (if nodeType n = 1
      then (case analyzeNewContent hostname ob n of
              Inl err \<Rightarrow> Inl err
            | Inr ob' \<Rightarrow> nodesLoop hostname ob' ns)
      else nodesLoop hostname ob ns)"

fun observeDOMChanges ::
  "(string \<Rightarrow> string option) \<Rightarrow> observer \<Rightarrow> mutation list \<Rightarrow> js_error + observer" where
  "observeDOMChanges hostname ob [] = Inr ob"
| "observeDOMChanges hostname ob (m # ms) =
     (if mutationType m = ''childList''
      then (case nodesLoop hostname ob (addedNodes m) of
              Inl err \<Rightarrow> Inl err
            | Inr ob' \<Rightarrow> observeDOMChanges hostname ob' ms)
      else observeDOMChanges hostname ob ms)"

section \<open>Notions used to state the properties\<close>

text \<open>
  A vocabulary entry occurs in a text when the lower-cased text contains it; the
  occurrences of the vocabulary in a text are counted over all entries and positions.
\<close>

definition occursIn :: "string \<Rightarrow> string \<Rightarrow> bool" where
  "occursIn text keyword = (0 < occurrences (toLowerCase keyword) (toLowerCase text))"

definition vocabularyOccurrences :: "string list \<Rightarrow> string \<Rightarrow> nat" where
  "vocabularyOccurrences vocabulary text =
     sum_list (map (\<lambda>keyword. occurrences (toLowerCase keyword) (toLowerCase text)) vocabulary)"

definition ofType :: "string \<Rightarrow> threat list \<Rightarrow> threat list" where
  "ofType ty found = filter (\<lambda>t. type t = ty) found"

text \<open>The matches of one urgency family in a text, and the families with three or more.\<close>

definition familyMatches :: "regex \<Rightarrow> string \<Rightarrow> nat" where
  "familyMatches pattern text = length (matchAll True pattern text)"

definition qualifyingFamilies :: "string \<Rightarrow> regex list" where
  "qualifyingFamilies text = filter (\<lambda>pattern. 3 \<le> familyMatches pattern text) urgencyPatterns"

text \<open>
  The remote stage of the screenshot pipeline has failed when it does not return a
  remote result: the upload could not be built, the call was rejected or answered with
  a status outside 200-299, the answer was not a JSON document that can be read, or the
  result could not be stored.
\<close>

definition remoteFailed :: "env \<Rightarrow> string \<Rightarrow> tab \<Rightarrow> bool" where
  "remoteFailed e screenshot t =
     (case fst (remoteAnalysis e screenshot t) of Inr (Some r) \<Rightarrow> False | Inr None \<Rightarrow> True | Inl err \<Rightarrow> True)"

definition inUnitInterval :: "json option \<Rightarrow> bool" where
  "inUnitInterval v = (case v of Some (JNum x) \<Rightarrow> 0 \<le> x \<and> x \<le> 1 | _ \<Rightarrow> False)"

text \<open>
  The requests of the direct scans: the JSON request for a text, and the multipart
  request for a file of one of the three media kinds, which the Panel picks by the
  prefix of the file's type.
\<close>

definition textRequest :: "settings \<Rightarrow> string \<Rightarrow> request" where
  "textRequest s content =
     \<lparr>requestUrl = apiEndpoint s @ ''/predict-text'',
      requestBody = JsonBody (JObj [(''text'', JStr content)])\<rparr>"

definition mediaKind :: "upload \<Rightarrow> string option" where
  "mediaKind file =
     (if startsWith (fileType file) ''image/'' then Some ''image''
      else if startsWith (fileType file) ''audio/'' then Some ''audio''
      else if startsWith (fileType file) ''video/'' then Some ''video''
      else None)"

definition mediaRequest :: "settings \<Rightarrow> string \<Rightarrow> upload \<Rightarrow> request" where
  "mediaRequest s kind file =
     \<lparr>requestUrl = apiEndpoint s @ ''/predict-'' @ kind,
      requestBody = FormData [(''file'', file), (kind, file)]\<rparr>"

text \<open>The entry that the batch loop pushes for one file.\<close>

definition pushedEntry :: "(request \<Rightarrow> js_error + response) \<Rightarrow> settings \<Rightarrow> upload \<Rightarrow> fileEntry" where
  "pushedEntry fetch s file =
     (case scanFile fetch s file of
        Inr result \<Rightarrow> \<lparr>entryFile = fileName file, entryResult = Some result, entryError = None\<rparr>
      | Inl err \<Rightarrow> \<lparr>entryFile = fileName file, entryResult = None, entryError = Some (message err)\<rparr>)"

text \<open>The heuristic of the file-input handler: the first file has a suspicious extension.\<close>

definition suspiciousUpload :: "inputElement \<Rightarrow> bool" where
  "suspiciousUpload input =
     (inputType input = Some ''file'' \<and> inputFiles input \<noteq> [] \<and>
      ''.'' @ toLowerCase (last (splitOn (CHR ''.'') (hd (inputFiles input)))) \<in> set suspiciousExtensions)"

section \<open>Concrete inputs\<close>

definition exampleSettings :: settings where
  "exampleSettings = \<lparr>apiEndpoint = ''http://127.0.0.1:5000'', notifications = True\<rparr>"

definition exampleTab :: tab where
  "exampleTab = \<lparr>tabId = 7, windowId = 1, tabUrl = ''https://example.com/login''\<rparr>"

definition examplePage :: document where
  "examplePage =
     \<lparr>innerText = ''Security alert: verify now'', title = ''Login'',
      href = ''https://example.com/login''\<rparr>"

definition plainPage :: document where
  "plainPage = \<lparr>innerText = ''Opening hours'', title = ''Library'', href = ''https://example.org/''\<rparr>"

definition serverError :: response where
  "serverError =
     \<lparr>status = 500, statusText = ''INTERNAL SERVER ERROR'', jsonBody = Inl (Error ''Unexpected token <'')\<rparr>"

definition answer :: "json \<Rightarrow> response" where
  "answer j = \<lparr>status = 200, statusText = ''OK'', jsonBody = Inr j\<rparr>"

text \<open>A host on which everything works except the remote service, which answers 500.\<close>

definition failingRemote :: env where
  "failingRemote =
     \<lparr>currentSettings = exampleSettings,
      captureVisibleTab = Inr ''data:image/png;base64,iVBORw0KGgo='',
      download = Inr 1,
      fetchData = None,
      fetchApi = (\<lambda>req. Inr serverError),
      storageSet = (\<lambda>entry. None),
      executeScript = Inr (Some examplePage)\<rparr>"

definition emptyExtraction :: env where
  "emptyExtraction = failingRemote\<lparr>executeScript := Inr None\<rparr>"

definition failedExtraction :: env where
  "failedExtraction = failingRemote\<lparr>executeScript := Inl (Error ''Cannot access contents of the page'')\<rparr>"

definition plainExtraction :: env where
  "plainExtraction = failingRemote\<lparr>executeScript := Inr (Some plainPage)\<rparr>"

definition droppedConnection :: env where
  "droppedConnection = emptyExtraction\<lparr>fetchApi := (\<lambda>req. Inl (TypeError ''Failed to fetch''))\<rparr>"

definition failedDownload :: env where
  "failedDownload = emptyExtraction\<lparr>download := Inl (Error ''Download canceled by the user'')\<rparr>"

definition overconfidentRemote :: env where
  "overconfidentRemote =
     failingRemote\<lparr>fetchApi :=
       (\<lambda>req. Inr (answer (JObj [(''prediction'', JNum 1), (''probability'', JNum 1.5)])))\<rparr>"

definition terseRemote :: env where
  "terseRemote =
     failingRemote\<lparr>fetchApi := (\<lambda>req. Inr (answer (JObj [(''error'', JStr ''No text found'')])))\<rparr>"

definition workingRemote :: env where
  "workingRemote =
     failingRemote\<lparr>fetchApi :=
       (\<lambda>req. Inr (answer (JObj [(''prediction'', JNum 1), (''probability'', JNum 0.93)])))\<rparr>"

definition answering :: "request \<Rightarrow> js_error + response" where
  "answering req = Inr (answer (JObj [(''prediction'', JNum 0), (''probability'', JNum 0.9)]))"

definition secondFails :: "nat \<Rightarrow> request \<Rightarrow> js_error + response" where
  "secondFails i req = (if i = 1 then Inr serverError else answering req)"

definition imageFile :: upload where
  "imageFile = \<lparr>fileName = ''a.png'', fileType = ''image/png''\<rparr>"

definition audioFile :: upload where
  "audioFile = \<lparr>fileName = ''b.mp3'', fileType = ''audio/mpeg''\<rparr>"

definition videoFile :: upload where
  "videoFile = \<lparr>fileName = ''c.mp4'', fileType = ''video/mp4''\<rparr>"

definition exampleBatch :: "upload list" where
  "exampleBatch = [imageFile, audioFile, videoFile]"

definition exampleHostname :: "string \<Rightarrow> string option" where
  "exampleHostname url = (if url = ''https://bit.ly/abc'' then Some ''bit.ly'' else None)"

definition injectedAnchor :: node where
  "injectedAnchor =
     \<lparr>nodeType = 1, tagName = ''A'', nodeHref = ''https://bit.ly/abc'',
      textContent = '' Claim your prize '', nodeTitle = [], nodeTarget = []\<rparr>"

definition watching :: observer where
  "watching = \<lparr>warningsEnabled = True, warnings = []\<rparr>"

definition silenced :: observer where
  "silenced = \<lparr>warningsEnabled = False, warnings = []\<rparr>"

definition passwordSubmission :: "(string \<times> formValue) list event" where
  "passwordSubmission =
     \<lparr>target = [(''user'', StringValue ''alice''), (''password'', StringValue ''hunter2'')],
      defaultPrevented = False\<rparr>"

definition shortenerClick :: "string option event" where
  "shortenerClick = \<lparr>target = Some ''https://bit.ly/abc'', defaultPrevented = False\<rparr>"

definition executableUpload :: "inputElement event" where
  "executableUpload =
     \<lparr>target = \<lparr>inputType = Some ''file'', inputFiles = [''invoice.pdf.EXE'']\<rparr>,
      defaultPrevented = False\<rparr>"

section \<open>Evaluation of the case mappings\<close>

text \<open>
  Both case mappings, read off the eight bits of a code unit. The tables above are the
  definition; the equations below are checked against them on all 256 code units and
  make the mappings cheap to evaluate.
\<close>

lemma toLowerChar_bits:
  "\<forall>b0 b1 b2 b3 b4 b5 b6 b7. toLowerChar (Char b0 b1 b2 b3 b4 b5 b6 b7) =
     (if \<not> b5 \<and> b6 \<and> (if b7 then \<not> (b4 \<and> b2 \<and> b1 \<and> b0)
                         else (b0 \<or> b1 \<or> b2 \<or> b3 \<or> b4) \<and> \<not> (b4 \<and> b3 \<and> (b2 \<or> (b1 \<and> b0))))
      then Char b0 b1 b2 b3 b4 True b6 b7 else Char b0 b1 b2 b3 b4 b5 b6 b7)"
  by code_simp

lemma canonicalize_bits:
  "\<forall>b0 b1 b2 b3 b4 b5 b6 b7. canonicalize (Char b0 b1 b2 b3 b4 b5 b6 b7) =
     (if b5 \<and> b6 \<and> (if b7 then \<not> (b4 \<and> b2 \<and> b1 \<and> b0)
                       else (b0 \<or> b1 \<or> b2 \<or> b3 \<or> b4) \<and> \<not> (b4 \<and> b3 \<and> (b2 \<or> (b1 \<and> b0))))
      then Char b0 b1 b2 b3 b4 False b6 b7 else Char b0 b1 b2 b3 b4 b5 b6 b7)"
  by code_simp

lemma toLowerChar_Char [code]:
  "toLowerChar (Char b0 b1 b2 b3 b4 b5 b6 b7) =
     (if \<not> b5 \<and> b6 \<and> (if b7 then \<not> (b4 \<and> b2 \<and> b1 \<and> b0)
                         else (b0 \<or> b1 \<or> b2 \<or> b3 \<or> b4) \<and> \<not> (b4 \<and> b3 \<and> (b2 \<or> (b1 \<and> b0))))
      then Char b0 b1 b2 b3 b4 True b6 b7 else Char b0 b1 b2 b3 b4 b5 b6 b7)"
  using toLowerChar_bits by blast

lemma canonicalize_Char [code]:
  "canonicalize (Char b0 b1 b2 b3 b4 b5 b6 b7) =
     (if b5 \<and> b6 \<and> (if b7 then \<not> (b4 \<and> b2 \<and> b1 \<and> b0)
                       else (b0 \<or> b1 \<or> b2 \<or> b3 \<or> b4) \<and> \<not> (b4 \<and> b3 \<and> (b2 \<or> (b1 \<and> b0))))
      then Char b0 b1 b2 b3 b4 False b6 b7 else Char b0 b1 b2 b3 b4 b5 b6 b7)"
  using canonicalize_bits by blast

section \<open>The text heuristics\<close>

lemma includesJS_occurrences: "includesJS s p \<longleftrightarrow> 0 < occurrences p s"
  by (induction s) auto

lemma foldl_keywordStep:
  "foldl (keywordStep text) acc ks = acc @ map keywordThreat (filter (occursIn text) ks)"
  by (induction ks arbitrary: acc) (auto simp: keywordStep_def occursIn_def includesJS_occurrences)

lemma urgencyStep_eq:
  "urgencyStep text acc p = (if 3 \<le> familyMatches p text then acc @ [urgencyThreat] else acc)"
  by (auto simp: urgencyStep_def matchGlobal_def familyMatches_def split: list.splits)

lemma foldl_urgencyStep:
  "foldl (urgencyStep text) acc ps =
     acc @ replicate (length (filter (\<lambda>p. 3 \<le> familyMatches p text) ps)) urgencyThreat"
proof (induction ps arbitrary: acc)
  case Nil
  then show ?case by simp
next
  case (Cons p ps)
  then show ?case by (simp add: urgencyStep_eq replicate_app_Cons_same)
qed

lemma analyzeTextThreats_eq:
  "analyzeTextThreats text =
     map keywordThreat (filter (occursIn text) suspiciousKeywords)
       @ replicate (length (qualifyingFamilies text)) urgencyThreat"
  by (simp add: analyzeTextThreats_def foldl_keywordStep foldl_urgencyStep qualifyingFamilies_def)

lemma ofType_keyword_map: "ofType ''suspicious_keyword'' (map keywordThreat ks) = map keywordThreat ks"
  by (induction ks) (simp_all add: ofType_def keywordThreat_def)

lemma ofType_urgency_map: "ofType ''excessive_urgency'' (map keywordThreat ks) = []"
  by (induction ks) (simp_all add: ofType_def keywordThreat_def)

lemma ofType_keyword_replicate: "ofType ''suspicious_keyword'' (replicate n urgencyThreat) = []"
  by (induction n) (simp_all add: ofType_def urgencyThreat_def)

lemma ofType_urgency_replicate:
  "ofType ''excessive_urgency'' (replicate n urgencyThreat) = replicate n urgencyThreat"
  by (induction n) (simp_all add: ofType_def urgencyThreat_def)

lemma ofType_append: "ofType ty (xs @ ys) = ofType ty xs @ ofType ty ys"
  by (simp add: ofType_def)

lemma quickKeywordScan_eq: "quickKeywordScan text = filter (occursIn text) quickKeywords"
proof -
  have "foldl (\<lambda>found keyword. if includesJS (toLowerCase text) (toLowerCase keyword)
                  then found @ [keyword] else found) acc ks = acc @ filter (occursIn text) ks"
    for acc ks
    by (induction ks arbitrary: acc) (auto simp: occursIn_def includesJS_occurrences)
  then show ?thesis by (simp add: quickKeywordScan_def Let_def)
qed

text \<open>
  C6, as the code has it. For every text, both keyword detectors yield one finding for
  each vocabulary entry that occurs in the lower-cased text, in the order of the
  vocabulary; a text in which exactly two entries occur yields exactly two findings, and
  further occurrences of an entry that has been found add nothing.
\<close>

theorem keyword_findings_follow_vocabulary:
  "ofType ''suspicious_keyword'' (analyzeTextThreats text) =
     map keywordThreat (filter (occursIn text) suspiciousKeywords)
   \<and> quickKeywordScan text = filter (occursIn text) quickKeywords
   \<and> (length (filter (occursIn text) suspiciousKeywords) = 2 \<longrightarrow>
        length (ofType ''suspicious_keyword'' (analyzeTextThreats text)) = 2)
   \<and> (length (filter (occursIn text) quickKeywords) = 2 \<longrightarrow> length (quickKeywordScan text) = 2)"
  by (simp add: analyzeTextThreats_eq ofType_append ofType_keyword_map ofType_keyword_replicate
        quickKeywordScan_eq)

theorem keyword_findings_follow_vocabulary_witness:
  "length (filter (occursIn ''URGENT: click here'') suspiciousKeywords) = 2
   \<and> length (filter (occursIn ''URGENT: click here'') quickKeywords) = 2
   \<and> length (ofType ''suspicious_keyword'' (analyzeTextThreats ''URGENT: click here'')) = 2
   \<and> length (quickKeywordScan ''URGENT: click here'') = 2"
proof -
  have a: "length (filter (occursIn ''URGENT: click here'') suspiciousKeywords) = 2"
    by code_simp
  have b: "length (filter (occursIn ''URGENT: click here'') quickKeywords) = 2"
    by code_simp
  from keyword_findings_follow_vocabulary [of "''URGENT: click here''"] a b
  show ?thesis by blast
qed

text \<open>
  C6 as stated fails: the text \<open>urgent urgent\<close> holds exactly two occurrences of
  vocabulary entries and yields one finding, and in \<open>login urgent\<close> the entry found
  first is the one that occurs second.
\<close>

theorem keyword_occurrences_counterexample:
  "vocabularyOccurrences suspiciousKeywords ''urgent urgent'' = 2
   \<and> length (ofType ''suspicious_keyword'' (analyzeTextThreats ''urgent urgent'')) = 1
   \<and> vocabularyOccurrences quickKeywords ''urgent urgent'' = 2
   \<and> quickKeywordScan ''urgent urgent'' = [''urgent'']
   \<and> vocabularyOccurrences quickKeywords ''login urgent'' = 2
   \<and> quickKeywordScan ''login urgent'' = [''urgent'', ''login'']"
  by code_simp

text \<open>
  C7. For every text, the urgency detector emits one finding of type
  \<open>excessive_urgency\<close> and severity \<open>high\<close> for each family that has three or more
  matches in the text: exactly one when a single family has, none when every family has
  two or fewer.
\<close>

theorem urgency_findings_per_family:
  "ofType ''excessive_urgency'' (analyzeTextThreats text) =
     replicate (length (qualifyingFamilies text)) urgencyThreat
   \<and> type urgencyThreat = ''excessive_urgency'' \<and> severity urgencyThreat = ''high''
   \<and> (length (qualifyingFamilies text) = 1 \<longrightarrow>
        ofType ''excessive_urgency'' (analyzeTextThreats text) = [urgencyThreat])
   \<and> ((\<forall>pattern \<in> set urgencyPatterns. familyMatches pattern text \<le> 2) \<longrightarrow>
        ofType ''excessive_urgency'' (analyzeTextThreats text) = [])"
proof -
  have eq: "ofType ''excessive_urgency'' (analyzeTextThreats text) =
              replicate (length (qualifyingFamilies text)) urgencyThreat"
    by (simp add: analyzeTextThreats_eq ofType_append ofType_urgency_map ofType_urgency_replicate)
  have none: "qualifyingFamilies text = []"
    if "\<forall>pattern \<in> set urgencyPatterns. familyMatches pattern text \<le> 2"
    using that by (auto simp: qualifyingFamilies_def filter_empty_conv)
  show ?thesis using eq none by (auto simp: urgencyThreat_def)
qed

theorem urgency_findings_per_family_witness:
  "length (qualifyingFamilies ''Urgent! urgent! URGENT!'') = 1
   \<and> ofType ''excessive_urgency'' (analyzeTextThreats ''Urgent! urgent! URGENT!'') = [urgencyThreat]
   \<and> map (\<lambda>pattern. familyMatches pattern ''urgent, act now, hurry'') urgencyPatterns = [1, 0, 2]
   \<and> ofType ''excessive_urgency'' (analyzeTextThreats ''urgent, act now, hurry'') = []"
proof -
  have a: "length (qualifyingFamilies ''Urgent! urgent! URGENT!'') = 1"
    by code_simp
  have b: "map (\<lambda>pattern. familyMatches pattern ''urgent, act now, hurry'') urgencyPatterns = [1, 0, 2]"
    by code_simp
  have "list_all (\<lambda>n. n \<le> 2) (map (\<lambda>pattern. familyMatches pattern ''urgent, act now, hurry'') urgencyPatterns)"
    unfolding b by simp
  then have c: "\<forall>pattern \<in> set urgencyPatterns. familyMatches pattern ''urgent, act now, hurry'' \<le> 2"
    by (simp add: list_all_iff)
  from urgency_findings_per_family [of "''Urgent! urgent! URGENT!''"] a
    urgency_findings_per_family [of "''urgent, act now, hurry''"] b c
  show ?thesis by blast
qed

section \<open>The screenshot pipeline\<close>

lemma performBasic_failed:
  "executeScript e = Inl err \<Longrightarrow>
   performBasicScreenshotAnalysis e s t =
     (Inr \<lparr>threats = [], confidence = Some (JNum 0), apiResult = None, basic = None,
           error = Some (message err), screenshotSaved = True\<rparr>,
      [ExecuteScript (tabId t)] @ showThreatNotification e ''Screenshot Saved'')"
  by (simp add: performBasicScreenshotAnalysis_def basicTry_def)

lemma performBasic_empty:
  "executeScript e = Inr None \<Longrightarrow>
   fst (performBasicScreenshotAnalysis e s t) =
     Inr \<lparr>threats = [], confidence = Some (JNum 0.1), apiResult = None,
          basic = Some \<lparr>basicThreats = [], basicText = [], basicTitle = [], basicUrl = []\<rparr>,
          error = None, screenshotSaved = True\<rparr>"
  by (simp add: performBasicScreenshotAnalysis_def basicTry_def)

lemma performBasic_page:
  "executeScript e = Inr (Some doc) \<Longrightarrow>
   fst (performBasicScreenshotAnalysis e s t) =
     (case storageSet e (BasicAnalysisEntry s (analysisOf doc) (tabUrl t)) of
        Some err \<Rightarrow>
          Inr \<lparr>threats = [], confidence = Some (JNum 0), apiResult = None, basic = None,
               error = Some (message err), screenshotSaved = True\<rparr>
      | None \<Rightarrow>
          Inr \<lparr>threats = basicThreats (analysisOf doc),
               confidence = Some (JNum (if basicThreats (analysisOf doc) \<noteq> [] then 0.8 else 0.2)),
               apiResult = None, basic = Some (analysisOf doc), error = None,
               screenshotSaved = True\<rparr>)"
  by (simp add: performBasicScreenshotAnalysis_def basicTry_def Let_def analysisOf_def
        split: option.splits)

lemma performBasic_returns: "\<exists>r. fst (performBasicScreenshotAnalysis e s t) = Inr r"
  by (cases "basicTry e s t" rule: prod.exhaust; cases "fst (basicTry e s t)")
     (auto simp: performBasicScreenshotAnalysis_def)

lemma analyzeCaptured_fallback:
  assumes "remoteFailed e s t"
  shows "fst (analyzeCaptured e s t) = fst (performBasicScreenshotAnalysis e s t)"
proof -
  obtain r where r: "fst (performBasicScreenshotAnalysis e s t) = Inr r"
    using performBasic_returns by blast
  obtain res eff where ra: "remoteAnalysis e s t = (res, eff)"
    by (cases "remoteAnalysis e s t")
  obtain eff' where pb: "performBasicScreenshotAnalysis e s t = (Inr r, eff')"
    using r by (cases "performBasicScreenshotAnalysis e s t") auto
  from assms ra have "res = Inr None \<or> (\<exists>err. res = Inl err)"
    by (auto simp: remoteFailed_def split: sum.splits option.splits)
  then show ?thesis
    by (auto simp: analyzeCaptured_def ra pb)
qed

lemma take_after_download:
  assumes "captureVisibleTab e = Inr s" "s \<noteq> []" "download e = Inr i"
  shows "fst (takeScreenshotAndAnalyze e t) = fst (analyzeCaptured e s t)"
  using assms
  by (cases "analyzeCaptured e s t" rule: prod.exhaust; cases "fst (analyzeCaptured e s t)")
     (auto simp: takeScreenshotAndAnalyze_def screenshotTry_def Let_def)


lemma performBasic_result:
  assumes "fst (performBasicScreenshotAnalysis e s t) = Inr r"
  shows "apiResult r = None \<and>
         confidence r \<in> {Some (JNum 0.8), Some (JNum 0.2), Some (JNum 0.1), Some (JNum 0)}"
proof (cases "executeScript e")
  case (Inl err)
  with assms show ?thesis by (auto simp: performBasic_failed)
next
  case (Inr page)
  show ?thesis
  proof (cases page)
    case None
    with Inr assms show ?thesis by (auto simp: performBasic_empty)
  next
    case (Some doc)
    with Inr assms show ?thesis
      by (auto simp: performBasic_page split: option.splits if_splits)
  qed
qed

lemma remoteAnalysis_result:
  assumes "fst (remoteAnalysis e s t) = Inr (Some r)"
  shows "\<exists>resp result. fetchApi e (imageRequest e) = Inr resp \<and> ok resp \<and> jsonBody resp = Inr result
           \<and> apiResult r = Some result \<and> basic r = None \<and> error r = None
           \<and> getProp result ''probability'' = Inr (confidence r)"
  using assms
  by (auto simp: remoteAnalysis_def Let_def split: option.splits sum.splits if_splits)

lemma analyzeCaptured_remote:
  assumes "fst (remoteAnalysis e s t) = Inr (Some r)"
  shows "fst (analyzeCaptured e s t) = Inr r"
  using assms by (cases "remoteAnalysis e s t") (auto simp: analyzeCaptured_def)

lemma take_returns_after_download:
  assumes "fst (takeScreenshotAndAnalyze e t) = Inr r"
  shows "\<exists>s i. captureVisibleTab e = Inr s \<and> s \<noteq> [] \<and> download e = Inr i"
proof -
  have "fst (screenshotTry e t) = Inr r"
    using assms
    by (cases "screenshotTry e t" rule: prod.exhaust; cases "fst (screenshotTry e t)")
       (auto simp: takeScreenshotAndAnalyze_def)
  then show ?thesis
    by (auto simp: screenshotTry_def Let_def split: sum.splits if_splits)
qed

text \<open>
  C1, as the code has it. Whenever capture and download have succeeded and the remote
  stage has failed, the operation returns a result without remote data and does not
  raise. Its confidence is 0.8 if the quick keyword scan of the extracted text plus
  title found a keyword and 0.2 if it found none, provided the page was extracted and
  the result was stored; it is 0.1 when the extraction returned nothing, and 0 when the
  extraction or the store raised.
\<close>

theorem screenshot_fallback_confidence:
  assumes "captureVisibleTab e = Inr screenshot" and "screenshot \<noteq> []"
    and "download e = Inr downloadId" and "remoteFailed e screenshot t"
  shows "\<exists>r. fst (takeScreenshotAndAnalyze e t) = Inr r \<and> apiResult r = None \<and>
           confidence r = Some (JNum
             (case executeScript e of
                Inl err \<Rightarrow> 0
              | Inr None \<Rightarrow> 0.1
              | Inr (Some doc) \<Rightarrow>
                  (case storageSet e (BasicAnalysisEntry screenshot (analysisOf doc) (tabUrl t)) of
                     Some err \<Rightarrow> 0
                   | None \<Rightarrow>
                       if quickKeywordScan (extractedText doc @ '' '' @ title doc) \<noteq> []
                       then 0.8 else 0.2)))"
proof -
  have eq: "fst (takeScreenshotAndAnalyze e t) = fst (performBasicScreenshotAnalysis e screenshot t)"
    using assms by (simp add: take_after_download analyzeCaptured_fallback)
  show ?thesis
  proof (cases "executeScript e")
    case (Inl err)
    then show ?thesis by (simp add: eq performBasic_failed)
  next
    case (Inr page)
    show ?thesis
    proof (cases page)
      case None
      with Inr show ?thesis by (simp add: eq performBasic_empty)
    next
      case (Some doc)
      with Inr show ?thesis
        by (simp add: eq performBasic_page analysisOf_def split: option.splits)
    qed
  qed
qed

text \<open>
  C3, as the code has it. When capture and download have succeeded and the remote stage
  has failed, the operation does not raise, whatever the extraction of the page does.
  If the extraction raises, the result has no threats, confidence 0 and the message of
  the extraction error. If the extraction returns no content, the result is the default
  one: no threats, confidence 0.1, an empty basic analysis and no error.
\<close>

theorem extraction_failure_result:
  assumes "captureVisibleTab e = Inr screenshot" and "screenshot \<noteq> []"
    and "download e = Inr downloadId" and "remoteFailed e screenshot t"
  shows "(executeScript e = Inl err \<longrightarrow>
            fst (takeScreenshotAndAnalyze e t) =
              Inr \<lparr>threats = [], confidence = Some (JNum 0), apiResult = None, basic = None,
                   error = Some (message err), screenshotSaved = True\<rparr>)
       \<and> (executeScript e = Inr None \<longrightarrow>
            fst (takeScreenshotAndAnalyze e t) =
              Inr \<lparr>threats = [], confidence = Some (JNum 0.1), apiResult = None,
                   basic = Some \<lparr>basicThreats = [], basicText = [], basicTitle = [],
                                 basicUrl = []\<rparr>,
                   error = None, screenshotSaved = True\<rparr>)
       \<and> (\<exists>r. fst (takeScreenshotAndAnalyze e t) = Inr r)"
proof -
  have eq: "fst (takeScreenshotAndAnalyze e t) = fst (performBasicScreenshotAnalysis e screenshot t)"
    using assms by (simp add: take_after_download analyzeCaptured_fallback)
  have raised: "fst (performBasicScreenshotAnalysis e screenshot t) =
      Inr \<lparr>threats = [], confidence = Some (JNum 0), apiResult = None, basic = None,
           error = Some (message err), screenshotSaved = True\<rparr>"
    if "executeScript e = Inl err"
    using that by (simp add: performBasic_failed)
  have default: "fst (performBasicScreenshotAnalysis e screenshot t) =
      Inr \<lparr>threats = [], confidence = Some (JNum 0.1), apiResult = None,
           basic = Some \<lparr>basicThreats = [], basicText = [], basicTitle = [], basicUrl = []\<rparr>,
           error = None, screenshotSaved = True\<rparr>"
    if "executeScript e = Inr None"
    using that by (rule performBasic_empty)
  show ?thesis
    unfolding eq using raised default performBasic_returns [of e screenshot t] by blast
qed

text \<open>
  C2, as the code has it. Every result that the screenshot pipeline returns is of one
  of two shapes. Either it carries no remote data, and then its confidence is one of
  0.8, 0.2, 0.1 and 0, so within the unit interval; or it carries the JSON document of
  a successful remote answer unchanged, with no basic analysis and no error, and its
  confidence is whatever the \<open>probability\<close> member of that document is. Spoof members
  occur nowhere but inside that document.
\<close>

theorem screenshot_result_shape:
  assumes "fst (takeScreenshotAndAnalyze e t) = Inr r"
  shows "(apiResult r = None \<and> inUnitInterval (confidence r) \<and>
          confidence r \<in> {Some (JNum 0.8), Some (JNum 0.2), Some (JNum 0.1), Some (JNum 0)})
       \<or> (\<exists>resp result. fetchApi e (imageRequest e) = Inr resp \<and> ok resp
             \<and> jsonBody resp = Inr result \<and> apiResult r = Some result
             \<and> basic r = None \<and> error r = None
             \<and> getProp result ''probability'' = Inr (confidence r))"
proof -
  obtain s i where cap: "captureVisibleTab e = Inr s" "s \<noteq> []" "download e = Inr i"
    using take_returns_after_download [OF assms] by blast
  then have ac: "fst (analyzeCaptured e s t) = Inr r"
    using assms by (simp add: take_after_download)
  show ?thesis
  proof (cases "remoteFailed e s t")
    case True
    then have "fst (performBasicScreenshotAnalysis e s t) = Inr r"
      using ac by (simp add: analyzeCaptured_fallback)
    from performBasic_result [OF this] show ?thesis
      by (auto simp: inUnitInterval_def)
  next
    case False
    then obtain r' where rr: "fst (remoteAnalysis e s t) = Inr (Some r')"
      by (auto simp: remoteFailed_def split: sum.splits option.splits)
    with ac have "r' = r" by (simp add: analyzeCaptured_remote)
    with remoteAnalysis_result [OF rr] show ?thesis by blast
  qed
qed

lemma download_unused:
  "showThreatNotification (e\<lparr>download := d\<rparr>) = showThreatNotification e"
  "imageRequest (e\<lparr>download := d\<rparr>) = imageRequest e"
  "basicTry (e\<lparr>download := d\<rparr>) = basicTry e"
  by (simp_all add: fun_eq_iff showThreatNotification_def imageRequest_def basicTry_def
        cong: sum.case_cong option.case_cong)

lemma analyzeCaptured_download:
  "analyzeCaptured (e\<lparr>download := d\<rparr>) s t = analyzeCaptured e s t"
  by (simp add: analyzeCaptured_def remoteAnalysis_def performBasicScreenshotAnalysis_def
        download_unused Let_def
        cong: sum.case_cong option.case_cong prod.case_cong if_cong)

text \<open>
  C4, as the code has it. After a successful capture the download is awaited first.
  If it fails, the operation raises the download error after the error notification,
  and neither the remote call nor the fallback runs; if it succeeds, the identifier it
  returns has no influence on the result or on the effects.
\<close>

theorem download_gates_pipeline:
  assumes "captureVisibleTab e = Inr screenshot" and "screenshot \<noteq> []"
  shows "(download e = Inl err \<longrightarrow>
            takeScreenshotAndAnalyze e t =
              (Inl err, showThreatNotification e ''Screenshot Analysis'' @ [Download screenshot]
                          @ showThreatNotification e ''Screenshot Error''))
       \<and> (download e = Inr i \<longrightarrow>
            takeScreenshotAndAnalyze (e\<lparr>download := Inr j\<rparr>) t = takeScreenshotAndAnalyze e t)"
proof (intro conjI impI)
  assume "download e = Inl err"
  with assms show "takeScreenshotAndAnalyze e t =
      (Inl err, showThreatNotification e ''Screenshot Analysis'' @ [Download screenshot]
                  @ showThreatNotification e ''Screenshot Error'')"
    by (simp add: takeScreenshotAndAnalyze_def screenshotTry_def Let_def)
next
  assume "download e = Inr i"
  with assms have "screenshotTry (e\<lparr>download := Inr j\<rparr>) t = screenshotTry e t"
    by (simp add: screenshotTry_def download_unused analyzeCaptured_download Let_def)
  then show "takeScreenshotAndAnalyze (e\<lparr>download := Inr j\<rparr>) t = takeScreenshotAndAnalyze e t"
    unfolding takeScreenshotAndAnalyze_def download_unused by simp
qed

text \<open>
  A rejected call and an answer with a status outside 200-299 are failures of the
  remote stage.
\<close>

lemma remote_call_failed:
  assumes "fetchApi e (imageRequest e) = Inl err
           \<or> (fetchApi e (imageRequest e) = Inr resp \<and> \<not> ok resp)"
  shows "remoteFailed e s t"
  using assms
  by (auto simp: remoteFailed_def remoteAnalysis_def split: option.splits)

lemma failingRemote_failed:
  "remoteFailed failingRemote s t"
proof -
  have "fetchApi failingRemote (imageRequest failingRemote) = Inr serverError \<and> \<not> ok serverError"
    by (simp add: failingRemote_def serverError_def ok_def)
  then show ?thesis using remote_call_failed [of failingRemote _ serverError] by blast
qed

theorem screenshot_fallback_confidence_witness:
  "captureVisibleTab failingRemote = Inr ''data:image/png;base64,iVBORw0KGgo=''
   \<and> download failingRemote = Inr 1
   \<and> remoteFailed failingRemote ''data:image/png;base64,iVBORw0KGgo='' exampleTab
   \<and> (\<exists>r. fst (takeScreenshotAndAnalyze failingRemote exampleTab) = Inr r \<and> apiResult r = None
          \<and> confidence r = Some (JNum 0.8))
   \<and> captureVisibleTab plainExtraction = Inr ''data:image/png;base64,iVBORw0KGgo=''
   \<and> download plainExtraction = Inr 1
   \<and> remoteFailed plainExtraction ''data:image/png;base64,iVBORw0KGgo='' exampleTab
   \<and> (\<exists>r. fst (takeScreenshotAndAnalyze plainExtraction exampleTab) = Inr r \<and> apiResult r = None
          \<and> confidence r = Some (JNum 0.2))"
proof -
  have c: "captureVisibleTab failingRemote = Inr ''data:image/png;base64,iVBORw0KGgo=''"
    and n: "''data:image/png;base64,iVBORw0KGgo='' \<noteq> []"
    and d: "download failingRemote = Inr 1"
    and x: "executeScript failingRemote = Inr (Some examplePage)"
    and w: "storageSet failingRemote = (\<lambda>entry. None)"
    by (simp_all add: failingRemote_def)
  have k: "quickKeywordScan (extractedText examplePage @ '' '' @ title examplePage) \<noteq> []"
    by code_simp
  have c': "captureVisibleTab plainExtraction = Inr ''data:image/png;base64,iVBORw0KGgo=''"
    and d': "download plainExtraction = Inr 1"
    and x': "executeScript plainExtraction = Inr (Some plainPage)"
    and w': "storageSet plainExtraction = (\<lambda>entry. None)"
    by (simp_all add: plainExtraction_def failingRemote_def)
  have f': "remoteFailed plainExtraction ''data:image/png;base64,iVBORw0KGgo='' exampleTab"
    by (simp add: remoteFailed_def remoteAnalysis_def plainExtraction_def failingRemote_def
          serverError_def ok_def)
  have k': "quickKeywordScan (extractedText plainPage @ '' '' @ title plainPage) = []"
    by code_simp
  have one: "\<exists>r. fst (takeScreenshotAndAnalyze failingRemote exampleTab) = Inr r \<and> apiResult r = None
          \<and> confidence r = Some (JNum 0.8)"
    using screenshot_fallback_confidence [OF c n d failingRemote_failed, of exampleTab] k
    by (simp add: x w)
  have two: "\<exists>r. fst (takeScreenshotAndAnalyze plainExtraction exampleTab) = Inr r \<and> apiResult r = None
          \<and> confidence r = Some (JNum 0.2)"
    using screenshot_fallback_confidence [OF c' n d' f', of ] k'
    by (simp add: x' w')
  from one two c d c' d' f' failingRemote_failed show ?thesis by blast
qed

text \<open>
  C1 as stated fails: with a remote answer of status 500 and an extraction that
  returns nothing, the confidence is 0.1.
\<close>

theorem screenshot_fallback_counterexample:
  "captureVisibleTab emptyExtraction = Inr ''data:image/png;base64,iVBORw0KGgo=''
   \<and> fetchApi emptyExtraction (imageRequest emptyExtraction) = Inr serverError
   \<and> \<not> ok serverError
   \<and> fst (takeScreenshotAndAnalyze emptyExtraction exampleTab) =
       Inr \<lparr>threats = [], confidence = Some (JNum 0.1), apiResult = None,
            basic = Some \<lparr>basicThreats = [], basicText = [], basicTitle = [], basicUrl = []\<rparr>,
            error = None, screenshotSaved = True\<rparr>"
  by (simp add: takeScreenshotAndAnalyze_def screenshotTry_def analyzeCaptured_def
        remoteAnalysis_def performBasicScreenshotAnalysis_def basicTry_def
        emptyExtraction_def failingRemote_def serverError_def ok_def Let_def)

theorem extraction_failure_result_witness:
  "captureVisibleTab failedExtraction = Inr ''data:image/png;base64,iVBORw0KGgo=''
   \<and> download failedExtraction = Inr 1
   \<and> remoteFailed failedExtraction ''data:image/png;base64,iVBORw0KGgo='' exampleTab
   \<and> executeScript failedExtraction = Inl (Error ''Cannot access contents of the page'')
   \<and> fst (takeScreenshotAndAnalyze failedExtraction exampleTab) =
       Inr \<lparr>threats = [], confidence = Some (JNum 0), apiResult = None, basic = None,
            error = Some ''Cannot access contents of the page'', screenshotSaved = True\<rparr>
   \<and> captureVisibleTab droppedConnection = Inr ''data:image/png;base64,iVBORw0KGgo=''
   \<and> download droppedConnection = Inr 1
   \<and> remoteFailed droppedConnection ''data:image/png;base64,iVBORw0KGgo='' exampleTab
   \<and> executeScript droppedConnection = Inr None
   \<and> fst (takeScreenshotAndAnalyze droppedConnection exampleTab) =
       Inr \<lparr>threats = [], confidence = Some (JNum 0.1), apiResult = None,
            basic = Some \<lparr>basicThreats = [], basicText = [], basicTitle = [], basicUrl = []\<rparr>,
            error = None, screenshotSaved = True\<rparr>"
proof -
  have c: "captureVisibleTab failedExtraction = Inr ''data:image/png;base64,iVBORw0KGgo=''"
    and n: "''data:image/png;base64,iVBORw0KGgo='' \<noteq> []"
    and d: "download failedExtraction = Inr 1"
    and x: "executeScript failedExtraction = Inl (Error ''Cannot access contents of the page'')"
    by (simp_all add: failedExtraction_def failingRemote_def)
  have f: "remoteFailed failedExtraction ''data:image/png;base64,iVBORw0KGgo='' exampleTab"
    by (simp add: remoteFailed_def remoteAnalysis_def failedExtraction_def failingRemote_def
          serverError_def ok_def)
  have c': "captureVisibleTab droppedConnection = Inr ''data:image/png;base64,iVBORw0KGgo=''"
    and d': "download droppedConnection = Inr 1"
    and x': "executeScript droppedConnection = Inr None"
    and a': "fetchApi droppedConnection (imageRequest droppedConnection) =
               Inl (TypeError ''Failed to fetch'')"
    by (simp_all add: droppedConnection_def emptyExtraction_def failingRemote_def)
  have f': "remoteFailed droppedConnection ''data:image/png;base64,iVBORw0KGgo='' exampleTab"
    using remote_call_failed [of droppedConnection "TypeError ''Failed to fetch''"] a' by blast
  from extraction_failure_result [OF c n d f, of "Error ''Cannot access contents of the page''"]
    extraction_failure_result [OF c' n d' f', of "Error []"]
    c d f x c' d' f' x'
  show ?thesis by simp
qed

text \<open>
  C3 as stated fails: after a dropped connection to the remote service, an extraction
  that returns no content yields confidence 0.1 and no error.
\<close>

theorem empty_extraction_counterexample:
  "fetchApi droppedConnection (imageRequest droppedConnection) = Inl (TypeError ''Failed to fetch'')
   \<and> executeScript droppedConnection = Inr None
   \<and> takeScreenshotAndAnalyze droppedConnection exampleTab =
       (Inr \<lparr>threats = [], confidence = Some (JNum 0.1), apiResult = None,
             basic = Some \<lparr>basicThreats = [], basicText = [], basicTitle = [], basicUrl = []\<rparr>,
             error = None, screenshotSaved = True\<rparr>,
        [Notification ''Screenshot Analysis'', Download ''data:image/png;base64,iVBORw0KGgo='',
         FetchData ''data:image/png;base64,iVBORw0KGgo='', Fetch (imageRequest droppedConnection),
         ExecuteScript 7])"
  by (simp add: takeScreenshotAndAnalyze_def screenshotTry_def analyzeCaptured_def
        remoteAnalysis_def performBasicScreenshotAnalysis_def basicTry_def
        showThreatNotification_def exampleSettings_def exampleTab_def
        droppedConnection_def emptyExtraction_def failingRemote_def Let_def)

theorem screenshot_result_shape_witness:
  "fst (takeScreenshotAndAnalyze workingRemote exampleTab) =
     Inr \<lparr>threats = [''Phishing/Scam content detected''], confidence = Some (JNum 0.93),
          apiResult = Some (JObj [(''prediction'', JNum 1), (''probability'', JNum 0.93)]),
          basic = None, error = None, screenshotSaved = True\<rparr>
   \<and> (\<exists>resp. fetchApi workingRemote (imageRequest workingRemote) = Inr resp \<and> ok resp
          \<and> jsonBody resp = Inr (JObj [(''prediction'', JNum 1), (''probability'', JNum 0.93)]))
   \<and> fst (takeScreenshotAndAnalyze emptyExtraction exampleTab) =
       Inr \<lparr>threats = [], confidence = Some (JNum 0.1), apiResult = None,
            basic = Some \<lparr>basicThreats = [], basicText = [], basicTitle = [], basicUrl = []\<rparr>,
            error = None, screenshotSaved = True\<rparr>
   \<and> inUnitInterval (Some (JNum 0.1))"
proof -
  have a: "fst (takeScreenshotAndAnalyze workingRemote exampleTab) =
     Inr \<lparr>threats = [''Phishing/Scam content detected''], confidence = Some (JNum 0.93),
          apiResult = Some (JObj [(''prediction'', JNum 1), (''probability'', JNum 0.93)]),
          basic = None, error = None, screenshotSaved = True\<rparr>"
    by (simp add: takeScreenshotAndAnalyze_def screenshotTry_def analyzeCaptured_def
          remoteAnalysis_def workingRemote_def failingRemote_def answer_def ok_def Let_def)
  have b: "fst (takeScreenshotAndAnalyze emptyExtraction exampleTab) =
       Inr \<lparr>threats = [], confidence = Some (JNum 0.1), apiResult = None,
            basic = Some \<lparr>basicThreats = [], basicText = [], basicTitle = [], basicUrl = []\<rparr>,
            error = None, screenshotSaved = True\<rparr>"
    by (simp add: takeScreenshotAndAnalyze_def screenshotTry_def analyzeCaptured_def
          remoteAnalysis_def performBasicScreenshotAnalysis_def basicTry_def
          emptyExtraction_def failingRemote_def serverError_def ok_def Let_def)
  from screenshot_result_shape [OF a] screenshot_result_shape [OF b] a b
  show ?thesis by auto
qed

text \<open>
  C2 as stated fails: the confidence of a remote result is the \<open>probability\<close> member
  of the answer as it came, 1.5 for one answer and \<open>undefined\<close> for an answer without
  that member.
\<close>

theorem remote_confidence_counterexample:
  "fst (takeScreenshotAndAnalyze overconfidentRemote exampleTab) =
     Inr \<lparr>threats = [''Phishing/Scam content detected''], confidence = Some (JNum 1.5),
          apiResult = Some (JObj [(''prediction'', JNum 1), (''probability'', JNum 1.5)]),
          basic = None, error = None, screenshotSaved = True\<rparr>
   \<and> \<not> inUnitInterval (Some (JNum 1.5))
   \<and> fst (takeScreenshotAndAnalyze terseRemote exampleTab) =
       Inr \<lparr>threats = [], confidence = None,
            apiResult = Some (JObj [(''error'', JStr ''No text found'')]),
            basic = None, error = None, screenshotSaved = True\<rparr>
   \<and> \<not> inUnitInterval None"
  by (simp add: takeScreenshotAndAnalyze_def screenshotTry_def analyzeCaptured_def
        remoteAnalysis_def overconfidentRemote_def terseRemote_def failingRemote_def answer_def
        ok_def Let_def inUnitInterval_def)

text \<open>
  C4 as stated fails: on the same host, the run in which the download fails raises the
  download error without calling the remote service, and the run in which it succeeds
  returns a result.
\<close>

theorem download_failure_counterexample:
  "takeScreenshotAndAnalyze failedDownload exampleTab =
     (Inl (Error ''Download canceled by the user''),
      [Notification ''Screenshot Analysis'', Download ''data:image/png;base64,iVBORw0KGgo='',
       Notification ''Screenshot Error''])
   \<and> fst (takeScreenshotAndAnalyze emptyExtraction exampleTab) =
       Inr \<lparr>threats = [], confidence = Some (JNum 0.1), apiResult = None,
            basic = Some \<lparr>basicThreats = [], basicText = [], basicTitle = [], basicUrl = []\<rparr>,
            error = None, screenshotSaved = True\<rparr>"
  by (simp add: takeScreenshotAndAnalyze_def screenshotTry_def analyzeCaptured_def
        remoteAnalysis_def performBasicScreenshotAnalysis_def basicTry_def
        showThreatNotification_def exampleSettings_def
        failedDownload_def emptyExtraction_def failingRemote_def serverError_def ok_def Let_def)

theorem download_gates_pipeline_witness:
  "captureVisibleTab failedDownload = Inr ''data:image/png;base64,iVBORw0KGgo=''
   \<and> download failedDownload = Inl (Error ''Download canceled by the user'')
   \<and> takeScreenshotAndAnalyze failedDownload exampleTab =
       (Inl (Error ''Download canceled by the user''),
        [Notification ''Screenshot Analysis'', Download ''data:image/png;base64,iVBORw0KGgo='',
         Notification ''Screenshot Error''])
   \<and> download emptyExtraction = Inr 1
   \<and> takeScreenshotAndAnalyze (emptyExtraction\<lparr>download := Inr 2\<rparr>) exampleTab =
       takeScreenshotAndAnalyze emptyExtraction exampleTab"
proof -
  have c: "captureVisibleTab failedDownload = Inr ''data:image/png;base64,iVBORw0KGgo=''"
    and c': "captureVisibleTab emptyExtraction = Inr ''data:image/png;base64,iVBORw0KGgo=''"
    and n: "''data:image/png;base64,iVBORw0KGgo='' \<noteq> []"
    and d: "download failedDownload = Inl (Error ''Download canceled by the user'')"
    and d': "download emptyExtraction = Inr 1"
    and s: "showThreatNotification failedDownload = (\<lambda>t. [Notification t])"
    by (simp_all add: failedDownload_def emptyExtraction_def failingRemote_def
          showThreatNotification_def exampleSettings_def fun_eq_iff)
  from download_gates_pipeline [OF c n, of "Error ''Download canceled by the user''" exampleTab 1 2]
    download_gates_pipeline [OF c' n, of "Error ''Download canceled by the user''" exampleTab 1 2]
    c d d' s
  show ?thesis by simp
qed

section \<open>Direct scans and batches\<close>

declare showNat.simps [simp del]

lemma scanContent_text:
  "scanContent fetch s content ''text'' =
     (case fetch (textRequest s content) of
        Inl err \<Rightarrow> Inl err
      | Inr resp \<Rightarrow>
          if ok resp then jsonBody resp
          else Inl (Error (''API Error: '' @ showNat (status resp))))"
  by (simp add: scanContent_def textRequest_def split: sum.splits)

lemma scanFile_media:
  "scanFile fetch s file =
     (case mediaKind file of
        None \<Rightarrow> Inl (Error ''Unsupported file type'')
      | Some kind \<Rightarrow>
          (case fetch (mediaRequest s kind file) of
             Inl err \<Rightarrow> Inl err
           | Inr resp \<Rightarrow>
               if ok resp then jsonBody resp
               else Inl (Error (''API Error: '' @ showNat (status resp) @ '' '' @ statusText resp))))"
  by (simp add: scanFile_def mediaKind_def mediaRequest_def callAPI_def split: sum.splits)

text \<open>
  C5, as the code has it. The Agent's \<open>scanContent\<close> sends a text as a JSON body to
  \<open>/predict-text\<close> and rejects every other kind with an unsupported-type error, without
  a call. Media files are routed by the Panel's \<open>scanFile\<close>: an image, audio or video
  file goes as a multipart body to the endpoint of its kind, any other file is rejected
  without a call. In both, a rejected call passes its error on, an answer with a status
  outside 200-299 raises an error whose message carries the status code, and a result
  is always the body of a successful answer, never a heuristic one.
\<close>

theorem direct_scan_routing:
  "(contentType \<noteq> ''text'' \<longrightarrow>
      scanContent fetch s content contentType =
        Inl (Error (''Unsupported content type: '' @ contentType)))
   \<and> (fetch (textRequest s content) = Inl err \<longrightarrow> scanContent fetch s content ''text'' = Inl err)
   \<and> (fetch (textRequest s content) = Inr resp \<and> \<not> ok resp \<longrightarrow>
        scanContent fetch s content ''text'' = Inl (Error (''API Error: '' @ showNat (status resp))))
   \<and> (fetch (textRequest s content) = Inr resp \<and> ok resp \<longrightarrow>
        scanContent fetch s content ''text'' = jsonBody resp)
   \<and> (mediaKind file = None \<longrightarrow> scanFile fetch s file = Inl (Error ''Unsupported file type''))
   \<and> (mediaKind file = Some kind \<and> fetch (mediaRequest s kind file) = Inl err \<longrightarrow>
        scanFile fetch s file = Inl err)
   \<and> (mediaKind file = Some kind \<and> fetch (mediaRequest s kind file) = Inr resp \<and> \<not> ok resp \<longrightarrow>
        scanFile fetch s file =
          Inl (Error (''API Error: '' @ showNat (status resp) @ '' '' @ statusText resp)))
   \<and> (mediaKind file = Some kind \<and> fetch (mediaRequest s kind file) = Inr resp \<and> ok resp \<longrightarrow>
        scanFile fetch s file = jsonBody resp)"
  by (simp add: scanContent_text scanFile_media) (simp add: scanContent_def)

theorem direct_scan_routing_witness:
  "''image'' \<noteq> ''text''
   \<and> scanContent answering exampleSettings ''hello'' ''image'' =
       Inl (Error ''Unsupported content type: image'')
   \<and> (\<lambda>req. Inr serverError) (textRequest exampleSettings ''hello'') = Inr serverError
   \<and> \<not> ok serverError
   \<and> scanContent (\<lambda>req. Inr serverError) exampleSettings ''hello'' ''text'' =
       Inl (Error ''API Error: 500'')
   \<and> mediaKind (audioFile) = Some ''audio''
   \<and> scanFile (\<lambda>req. Inr serverError) exampleSettings (audioFile) =
       Inl (Error ''API Error: 500 INTERNAL SERVER ERROR'')
   \<and> answering (mediaRequest exampleSettings ''audio'' (audioFile)) =
       Inr (answer (JObj [(''prediction'', JNum 0), (''probability'', JNum 0.9)]))
   \<and> scanFile answering exampleSettings (audioFile) =
       Inr (JObj [(''prediction'', JNum 0), (''probability'', JNum 0.9)])"
proof -
  have n: "''image'' \<noteq> ''text''" by simp
  have k: "\<not> ok serverError" "status serverError = 500"
    "statusText serverError = ''INTERNAL SERVER ERROR''"
    by (simp_all add: serverError_def ok_def)
  have d: "showNat 500 = ''500''" by code_simp
  have m: "mediaKind (audioFile) = Some ''audio''" by code_simp
  have a: "answering (mediaRequest exampleSettings ''audio'' (audioFile)) =
       Inr (answer (JObj [(''prediction'', JNum 0), (''probability'', JNum 0.9)]))"
    "ok (answer (JObj [(''prediction'', JNum 0), (''probability'', JNum 0.9)]))"
    "jsonBody (answer (JObj [(''prediction'', JNum 0), (''probability'', JNum 0.9)])) =
       Inr (JObj [(''prediction'', JNum 0), (''probability'', JNum 0.9)])"
    by (simp_all add: answering_def answer_def ok_def)
  from direct_scan_routing [of "''image''" answering exampleSettings "''hello''"]
    direct_scan_routing [of "''text''" "\<lambda>req. Inr serverError" exampleSettings "''hello''"
      "Error []" serverError "audioFile" "''audio''"]
    direct_scan_routing [of "''text''" answering exampleSettings "''hello''"
      "Error []" "answer (JObj [(''prediction'', JNum 0), (''probability'', JNum 0.9)])"
      "audioFile" "''audio''"]
    n k d m a
  show ?thesis by simp
qed

text \<open>
  C5 as stated fails: the Agent's scan maps the kind \<open>image\<close> to no endpoint; it
  raises.
\<close>

theorem agent_scan_media_counterexample:
  "scanContent answering exampleSettings ''data:image/png;base64,iVBORw0KGgo='' ''image'' =
     Inl (Error ''Unsupported content type: image'')"
  by (simp add: scanContent_def)

lemma processLoop_eq:
  "processLoop fetchAt s i acc files =
     acc @ map (\<lambda>(j, file). pushedEntry (fetchAt j) s file) (zip [i ..< i + length files] files)"
proof (induction files arbitrary: i acc)
  case Nil
  then show ?case by simp
next
  case (Cons x files)
  have "[i ..< i + length (x # files)] = i # [Suc i ..< Suc i + length files]"
    by (subst upt_rec) simp
  then show ?case
    by (simp add: Cons.IH pushedEntry_def split: sum.splits)
qed

lemma processFiles_nth:
  assumes "i < length files"
  shows "processFiles fetchAt s files ! i = pushedEntry (fetchAt i) s (files ! i)"
  using assms by (simp add: processFiles_def processLoop_eq)

text \<open>
  C8. A batch yields one entry per file, in the order of the files; the entry of a file
  carries its name and either the result of its scan or the message of the error its
  scan threw, whatever happened to the other files. With three files of which the
  second throws, the array has three entries, the second with the error and the first
  and third with their results.
\<close>

theorem batch_entries_independent:
  "length (processFiles fetchAt s files) = length files
   \<and> (\<forall>i < length files.
        entryFile (processFiles fetchAt s files ! i) = fileName (files ! i)
        \<and> (\<forall>result. scanFile (fetchAt i) s (files ! i) = Inr result \<longrightarrow>
              processFiles fetchAt s files ! i =
                \<lparr>entryFile = fileName (files ! i), entryResult = Some result, entryError = None\<rparr>)
        \<and> (\<forall>err. scanFile (fetchAt i) s (files ! i) = Inl err \<longrightarrow>
              processFiles fetchAt s files ! i =
                \<lparr>entryFile = fileName (files ! i), entryResult = None,
                 entryError = Some (message err)\<rparr>))"
proof -
  have "length (processFiles fetchAt s files) = length files"
    by (simp add: processFiles_def processLoop_eq)
  moreover have "entryFile (pushedEntry f s x) = fileName x" for f x
    by (simp add: pushedEntry_def split: sum.splits)
  ultimately show ?thesis
    by (auto simp: processFiles_nth pushedEntry_def)
qed


theorem batch_entries_independent_witness:
  "length (processFiles secondFails exampleSettings exampleBatch) = 3
   \<and> (1::nat) < length exampleBatch
   \<and> scanFile (secondFails 1) exampleSettings (exampleBatch ! 1) =
       Inl (Error ''API Error: 500 INTERNAL SERVER ERROR'')
   \<and> processFiles secondFails exampleSettings exampleBatch ! 1 =
       \<lparr>entryFile = ''b.mp3'', entryResult = None,
        entryError = Some ''API Error: 500 INTERNAL SERVER ERROR''\<rparr>
   \<and> processFiles secondFails exampleSettings exampleBatch ! 0 =
       \<lparr>entryFile = ''a.png'',
        entryResult = Some (JObj [(''prediction'', JNum 0), (''probability'', JNum 0.9)]),
        entryError = None\<rparr>
   \<and> processFiles secondFails exampleSettings exampleBatch ! 2 =
       \<lparr>entryFile = ''c.mp4'',
        entryResult = Some (JObj [(''prediction'', JNum 0), (''probability'', JNum 0.9)]),
        entryError = None\<rparr>"
proof -
  have len: "length exampleBatch = 3" by (simp add: exampleBatch_def)
  have nth: "exampleBatch ! 0 = imageFile" "exampleBatch ! 1 = audioFile"
    "exampleBatch ! 2 = videoFile"
    by (simp_all add: exampleBatch_def)
  have names: "fileName imageFile = ''a.png''" "fileName audioFile = ''b.mp3''"
    "fileName videoFile = ''c.mp4''"
    by (simp_all add: imageFile_def audioFile_def videoFile_def)
  have kinds: "mediaKind imageFile = Some ''image''" "mediaKind audioFile = Some ''audio''"
    "mediaKind videoFile = Some ''video''"
    by code_simp+
  have d: "showNat 500 = ''500''" by code_simp
  have s0: "scanFile (secondFails 0) exampleSettings imageFile =
      Inr (JObj [(''prediction'', JNum 0), (''probability'', JNum 0.9)])"
    by (simp add: scanFile_media kinds secondFails_def answering_def answer_def ok_def)
  have s1: "scanFile (secondFails 1) exampleSettings audioFile =
      Inl (Error ''API Error: 500 INTERNAL SERVER ERROR'')"
    by (simp add: scanFile_media kinds secondFails_def serverError_def ok_def d)
  have s2: "scanFile (secondFails 2) exampleSettings videoFile =
      Inr (JObj [(''prediction'', JNum 0), (''probability'', JNum 0.9)])"
    by (simp add: scanFile_media kinds secondFails_def answering_def answer_def ok_def)
  have all: "\<forall>i<3. entryFile (processFiles secondFails exampleSettings exampleBatch ! i) =
                  fileName (exampleBatch ! i) \<and>
         (\<forall>result. scanFile (secondFails i) exampleSettings (exampleBatch ! i) = Inr result \<longrightarrow>
             processFiles secondFails exampleSettings exampleBatch ! i =
               \<lparr>entryFile = fileName (exampleBatch ! i), entryResult = Some result,
                entryError = None\<rparr>) \<and>
         (\<forall>err. scanFile (secondFails i) exampleSettings (exampleBatch ! i) = Inl err \<longrightarrow>
             processFiles secondFails exampleSettings exampleBatch ! i =
               \<lparr>entryFile = fileName (exampleBatch ! i), entryResult = None,
                entryError = Some (message err)\<rparr>)"
    and l: "length (processFiles secondFails exampleSettings exampleBatch) = 3"
    using batch_entries_independent [of secondFails exampleSettings exampleBatch, unfolded len]
    by blast+
  have e0: "processFiles secondFails exampleSettings exampleBatch ! 0 =
       \<lparr>entryFile = ''a.png'',
        entryResult = Some (JObj [(''prediction'', JNum 0), (''probability'', JNum 0.9)]),
        entryError = None\<rparr>"
    using all [rule_format, of 0] s0 by (simp add: nth names)
  have e1: "processFiles secondFails exampleSettings exampleBatch ! 1 =
       \<lparr>entryFile = ''b.mp3'', entryResult = None,
        entryError = Some ''API Error: 500 INTERNAL SERVER ERROR''\<rparr>"
    using all [rule_format, of 1] s1 by (simp add: nth names del: One_nat_def)
  have e2: "processFiles secondFails exampleSettings exampleBatch ! 2 =
       \<lparr>entryFile = ''c.mp4'',
        entryResult = Some (JObj [(''prediction'', JNum 0), (''probability'', JNum 0.9)]),
        entryError = None\<rparr>"
    using all [rule_format, of 2] s2 by (simp add: nth names)
  show ?thesis using l len e0 e1 e2 s1 by (simp add: nth del: One_nat_def)
qed

section \<open>Live interception and mutation watching\<close>

lemma showWarning_cases:
  "showWarning ob msg = (if warningsEnabled ob then ob\<lparr>warnings := warnings ob @ [msg]\<rparr> else ob)"
  by (simp add: showWarning_def)

text \<open>
  C10, as the code has it. The handlers for form submission, link activation and
  file-input change leave the event as it came, so \<open>preventDefault\<close> is not invoked
  and the browser's action goes ahead. A heuristic match appends one warning banner to
  the page when the notifications setting is on; when the setting is off, the
  handlers leave the page as it is.
\<close>

theorem interception_is_advisory:
  "snd (analyzeFormSubmission ob submitEvent) = submitEvent
   \<and> snd (analyzeLinkClick ob clickEvent) = clickEvent
   \<and> snd (analyzeFileUpload ob changeEvent) = changeEvent
   \<and> defaultPrevented (snd (analyzeFormSubmission ob submitEvent)) = defaultPrevented submitEvent
   \<and> defaultPrevented (snd (analyzeLinkClick ob clickEvent)) = defaultPrevented clickEvent
   \<and> defaultPrevented (snd (analyzeFileUpload ob changeEvent)) = defaultPrevented changeEvent
   \<and> (warningsEnabled ob \<and> entriesLoop False (target submitEvent) \<longrightarrow>
        warnings (fst (analyzeFormSubmission ob submitEvent)) =
          warnings ob @ [''Suspicious form submission detected''])
   \<and> (warningsEnabled ob \<and> target clickEvent = Some url \<and> isSuspiciousURL url \<longrightarrow>
        warnings (fst (analyzeLinkClick ob clickEvent)) = warnings ob @ [''Suspicious link detected''])
   \<and> (warningsEnabled ob \<and> suspiciousUpload (target changeEvent) \<longrightarrow>
        warnings (fst (analyzeFileUpload ob changeEvent)) =
          warnings ob @ [''Suspicious file type detected''])
   \<and> (\<not> warningsEnabled ob \<longrightarrow>
        fst (analyzeFormSubmission ob submitEvent) = ob
        \<and> fst (analyzeLinkClick ob clickEvent) = ob
        \<and> fst (analyzeFileUpload ob changeEvent) = ob)"
  by (auto simp: analyzeFormSubmission_def analyzeLinkClick_def analyzeFileUpload_def
        showWarning_cases suspiciousUpload_def Let_def split: option.splits)

theorem interception_is_advisory_witness:
  "warningsEnabled watching
   \<and> entriesLoop False (target passwordSubmission)
   \<and> warnings (fst (analyzeFormSubmission watching passwordSubmission)) =
       [''Suspicious form submission detected'']
   \<and> target shortenerClick = Some ''https://bit.ly/abc'' \<and> isSuspiciousURL ''https://bit.ly/abc''
   \<and> warnings (fst (analyzeLinkClick watching shortenerClick)) = [''Suspicious link detected'']
   \<and> suspiciousUpload (target executableUpload)
   \<and> warnings (fst (analyzeFileUpload watching executableUpload)) =
       [''Suspicious file type detected'']
   \<and> \<not> warningsEnabled silenced
   \<and> fst (analyzeFormSubmission silenced passwordSubmission) = silenced
   \<and> defaultPrevented (snd (analyzeFormSubmission watching passwordSubmission)) = False"
proof -
  have w: "warningsEnabled watching" "warnings watching = []" "\<not> warningsEnabled silenced"
    by (simp_all add: watching_def silenced_def)
  have f: "entriesLoop False (target passwordSubmission)" by code_simp
  have c: "target shortenerClick = Some ''https://bit.ly/abc''"
    by (simp add: shortenerClick_def)
  have u: "isSuspiciousURL ''https://bit.ly/abc''" by code_simp
  have x: "suspiciousUpload (target executableUpload)" by code_simp
  have p: "defaultPrevented passwordSubmission = False"
    by (simp add: passwordSubmission_def)
  from interception_is_advisory [of watching passwordSubmission shortenerClick executableUpload
      "''https://bit.ly/abc''"]
    interception_is_advisory [of silenced passwordSubmission shortenerClick executableUpload
      "''https://bit.ly/abc''"]
    w f c u x p
  show ?thesis by simp
qed

text \<open>
  C10 as stated fails: with the notifications setting off, the submission of a form
  with a \<open>password\<close> field matches the heuristic and no warning appears.
\<close>

theorem silenced_warning_counterexample:
  "entriesLoop False (target passwordSubmission)
   \<and> analyzeFormSubmission silenced passwordSubmission = (silenced, passwordSubmission)"
proof -
  have f: "entriesLoop False (target passwordSubmission)" by code_simp
  then show ?thesis
    by (simp add: analyzeFormSubmission_def showWarning_def silenced_def)
qed

text \<open>
  C9, on the code. An anchor to \<open>https://bit.ly/abc\<close> inserted after load is run
  through the link detector, which yields a \<open>suspicious_link\<close> finding; the callback
  of the mutation observer drops the finding and leaves the page without a warning.
\<close>

theorem injected_link_not_surfaced:
  "analyzeLinkThreats exampleHostname [nodeLink injectedAnchor] =
     Inr [suspiciousLinkThreat (nodeLink injectedAnchor)]
   \<and> observeDOMChanges exampleHostname watching
       [\<lparr>mutationType = ''childList'', addedNodes = [injectedAnchor]\<rparr>] = Inr watching"
proof -
  have s: "isSuspiciousURL (linkHref (nodeLink injectedAnchor))" by code_simp
  have m: "isLinkMismatch exampleHostname (nodeLink injectedAnchor) = Inr False" by code_simp
  have t: "nodeType injectedAnchor = 1" "tagName injectedAnchor = ''A''"
    by (simp_all add: injectedAnchor_def)
  have a: "analyzeLinkThreats exampleHostname [nodeLink injectedAnchor] =
     Inr [suspiciousLinkThreat (nodeLink injectedAnchor)]"
    by (simp add: analyzeLinkThreats_def s m)
  show ?thesis by (simp add: a t analyzeNewContent_def)
qed

lemma nodesLoop_same: "nodesLoop hostname ob ns = Inr ob' \<Longrightarrow> ob' = ob"
  by (induction ns) (auto simp: analyzeNewContent_def split: if_splits sum.splits)

lemma observeDOMChanges_same: "observeDOMChanges hostname ob ms = Inr ob' \<Longrightarrow> ob' = ob"
  by (induction ms) (auto split: if_splits sum.splits dest: nodesLoop_same)

end
